theory Spec2Isabelle
  imports Main "HOL-Library.List_Lexorder"
begin

section \<open>Python values used by examples/compare\_outputs.py\<close>

text \<open>
  A Python \<open>str\<close> is a sequence of Unicode code points; \<open>len\<close> counts code points and
  \<open><\<close> on strings is the lexicographic order of the code points, a proper prefix
  being smaller. That is the order of \<open>HOL-Library.List_Lexorder\<close> on \<open>nat list\<close>.
\<close>

type_synonym pystr = "nat list"

definition py :: "string \<Rightarrow> pystr" where
  "py s = map of_char s"

text \<open>
  The exception classes the script's handlers tell apart: \<open>subprocess.TimeoutExpired\<close>,
  \<open>KeyboardInterrupt\<close> (a \<open>BaseException\<close> that is not an \<open>Exception\<close>), and any other
  instance of \<open>Exception\<close> with its message. \<open>IndexError\<close> is what an out-of-range index
  raises.
\<close>

datatype exn = TimeoutExpired | KeyboardInterrupt | IndexError | OtherException pystr

fun is_Exception :: "exn \<Rightarrow> bool" where
  "is_Exception KeyboardInterrupt = False"
| "is_Exception _ = True"

text \<open>
  A float only travels through the script: it is written as a literal, handed to
  \<open>engine.generate\<close> and formatted into the Ruby script. It is represented by its
  \<open>repr\<close>, the shortest decimal text that reads back as the same float.
\<close>

datatype pyfloat = PyFloat pystr

fun float_str :: "pyfloat \<Rightarrow> pystr" where
  "float_str (PyFloat s) = s"

text \<open>\<open>str(n)\<close> of an integer: decimal digits, a minus sign for a negative one.\<close>

fun digits :: "nat \<Rightarrow> pystr" where
  "digits n = (if n < 10 then [48 + n] else digits (n div 10) @ [48 + n mod 10])"

definition int_str :: "int \<Rightarrow> pystr" where
  "int_str k = (if k < 0 then 45 # digits (nat (- k)) else digits (nat k))"

subsection \<open>\<open>str.strip()\<close>\<close>

text \<open>The code points CPython's \<open>str.isspace\<close> accepts; \<open>strip()\<close> removes them at both ends.\<close>

definition isspace :: "nat \<Rightarrow> bool" where
  "isspace c =
     ((0x09 \<le> c \<and> c \<le> 0x0D) \<or> (0x1C \<le> c \<and> c \<le> 0x20) \<or> c = 0x85 \<or> c = 0xA0 \<or>
      c = 0x1680 \<or> (0x2000 \<le> c \<and> c \<le> 0x200A) \<or> c = 0x2028 \<or> c = 0x2029 \<or>
      c = 0x202F \<or> c = 0x205F \<or> c = 0x3000)"

definition strip :: "pystr \<Rightarrow> pystr" where
  "strip s = rev (dropWhile isspace (rev (dropWhile isspace s)))"

subsection \<open>\<open>repr\<close> of a string\<close>

text \<open>
  CPython's \<open>unicode_repr\<close>: the quote is \<open>'\<close> unless the text has a \<open>'\<close> and no \<open>"\<close>;
  the quote and the backslash are escaped, tab, newline and carriage return become
  \<open>\t\<close>, \<open>\n\<close>, \<open>\r\<close>, other control characters and the non-printable code points become
  hexadecimal escapes. Which code points above U+007F are printable is a table of the
  interpreter's Unicode database, taken as the parameter \<open>printable\<close>.
\<close>

definition hexdigit :: "nat \<Rightarrow> nat" where
  "hexdigit d = py ''0123456789abcdef'' ! (d mod 16)"

definition hex_digits :: "nat \<Rightarrow> nat \<Rightarrow> pystr" where
  "hex_digits k ch = map (\<lambda>j. hexdigit (ch div 16 ^ j)) (rev [0..<k])"

definition repr_char :: "(nat \<Rightarrow> bool) \<Rightarrow> nat \<Rightarrow> nat \<Rightarrow> pystr" where
  "repr_char printable quote ch =
     (if ch = quote \<or> ch = 0x5C then [0x5C, ch]
      else if ch = 0x09 then [0x5C, 0x74]
      else if ch = 0x0A then [0x5C, 0x6E]
      else if ch = 0x0D then [0x5C, 0x72]
      else if ch < 0x20 \<or> ch = 0x7F then [0x5C, 0x78] @ hex_digits 2 ch
      else if ch < 0x7F then [ch]
      else if printable ch then [ch]
      else if ch \<le> 0xFF then [0x5C, 0x78] @ hex_digits 2 ch
      else if ch \<le> 0xFFFF then [0x5C, 0x75] @ hex_digits 4 ch
      else [0x5C, 0x55] @ hex_digits 8 ch)"

definition repr :: "(nat \<Rightarrow> bool) \<Rightarrow> pystr \<Rightarrow> pystr" where
  "repr printable s =
     (let quote = (if 0x27 \<in> set s \<and> 0x22 \<notin> set s then 0x22 else 0x27)
      in quote # concat (map (repr_char printable quote) s) @ [quote])"

subsection \<open>The specification's common prefix length\<close>

text \<open>
  The glossary's words: the length of the longest leading substring shared by two
  strings. Written as the greatest \<open>n\<close> such that the first \<open>n\<close> characters of both
  strings exist and are equal.
\<close>

definition common_prefix_length :: "pystr \<Rightarrow> pystr \<Rightarrow> nat" where
  "common_prefix_length a b =
     Max (set (filter (\<lambda>n. take n a = take n b) [0..<Suc (min (length a) (length b))]))"

text \<open>The same number, counted character by character from the start.\<close>

fun lcp_len :: "pystr \<Rightarrow> pystr \<Rightarrow> nat" where
  "lcp_len (x # xs) (y # ys) = (if x = y then Suc (lcp_len xs ys) else 0)"
| "lcp_len _ _ = 0"

section \<open>The world outside the script\<close>

text \<open>
  The collaborators are black boxes: \<open>Path.home()\<close> and \<open>Path.exists()\<close>, the four
  imports from the Python nanochat package, and \<open>subprocess.run\<close>. Each is a function
  of the state of the world \<open>'w\<close> that returns a value or raises, and leaves a new state.
  The objects they return are opaque handles.
\<close>

datatype path = Path "pystr list"

fun path_div :: "path \<Rightarrow> pystr \<Rightarrow> path" where
  "path_div (Path parts) seg = Path (parts @ [seg])"

datatype tokenizer = Tokenizer nat
datatype gpt = GPT nat
datatype device = Device nat
datatype engine = Engine_object nat

datatype completed_process =
  CompletedProcess (returncode: int) (stdout: pystr) (stderr: pystr)

record 'w env =
  unicode_printable :: "nat \<Rightarrow> bool"
  path_home :: "'w \<Rightarrow> (exn + path) \<times> 'w"
  path_exists :: "path \<Rightarrow> 'w \<Rightarrow> (exn + bool) \<times> 'w"
  get_tokenizer :: "'w \<Rightarrow> (exn + tokenizer) \<times> 'w"
  from_checkpoint :: "path \<Rightarrow> 'w \<Rightarrow> (exn + gpt) \<times> 'w"
  get_device :: "'w \<Rightarrow> (exn + device) \<times> 'w"
  Engine :: "gpt \<Rightarrow> tokenizer \<Rightarrow> device \<Rightarrow> 'w \<Rightarrow> (exn + engine) \<times> 'w"
  engine_generate ::
    "engine \<Rightarrow> pystr \<Rightarrow> int \<Rightarrow> pyfloat \<Rightarrow> pyfloat \<Rightarrow> 'w \<Rightarrow> (exn + pystr) \<times> 'w"
  subprocess_run ::
    "pystr list \<Rightarrow> bool \<Rightarrow> bool \<Rightarrow> nat \<Rightarrow> 'w \<Rightarrow> (exn + completed_process) \<times> 'w"

text \<open>
  What the script prints, one constructor for each \<open>print\<close> of the source, with the
  values it interpolates:
  \<^item> \<open>Banner\<close>: the title line; \<open>Rule_eq\<close>: \<open>"=" * 70\<close>; \<open>Rule_dash\<close>: \<open>"-" * 70\<close>;
    \<open>Blank\<close>: \<open>print()\<close>;
  \<^item> \<open>Test_header i n prompt\<close>: \<open>Test {i}/{n}: "{prompt}"\<close>;
  \<^item> \<open>Python_label\<close>, \<open>Ruby_label\<close>: the two "output:" lines;
  \<^item> \<open>Output_text t\<close>: the output, indented; \<open>Output_failed\<close>: \<open>(failed)\<close>;
  \<^item> \<open>Shared_prefix k\<close>: \<open>Outputs share common prefix ({k} chars)\<close>;
    \<open>Diverge\<close>: \<open>Outputs diverge immediately\<close>;
  \<^item> \<open>Python_length k\<close>, \<open>Ruby_length k\<close>: the two length lines;
  \<^item> \<open>Checkpoint_not_found p\<close>, \<open>Ruby_error stderr\<close>, \<open>Ruby_timed_out\<close>,
    \<open>Ruby_execution_failed e\<close>: the diagnostics of the two generators;
  \<^item> \<open>Interrupted\<close>, \<open>Error_line e\<close>: the two lines of the top-level handlers.
\<close>

datatype line =
    Banner | Rule_eq | Rule_dash | Blank
  | Test_header nat nat pystr
  | Python_label | Ruby_label
  | Output_text pystr | Output_failed
  | Shared_prefix nat | Diverge
  | Python_length nat | Ruby_length nat
  | Checkpoint_not_found path
  | Ruby_error pystr | Ruby_timed_out | Ruby_execution_failed exn
  | Interrupted | Error_line exn

text \<open>
  The observable events of a run, in order: the lines printed, the traceback of the
  top-level handler, and every call of a collaborator with its arguments (recorded when
  the call is made, whatever its outcome). \<open>Call_run argv capture_output text timeout\<close> is
  \<open>subprocess.run\<close>.
\<close>

datatype event =
    Print line
  | Traceback exn
  | Call_home
  | Call_exists path
  | Call_get_tokenizer
  | Call_from_checkpoint path
  | Call_get_device
  | Call_Engine gpt tokenizer device
  | Call_generate engine pystr int pyfloat pyfloat
  | Call_run "pystr list" bool bool nat

section \<open>Statements as state transformers that may raise\<close>

type_synonym ('w, 'a) prog = "'w \<times> event list \<Rightarrow> (exn + 'a) \<times> ('w \<times> event list)"

definition ret :: "'a \<Rightarrow> ('w, 'a) prog" where
  "ret x s = (Inr x, s)"

definition raise :: "exn \<Rightarrow> ('w, 'a) prog" where
  "raise e s = (Inl e, s)"

definition bind :: "('w, 'a) prog \<Rightarrow> ('a \<Rightarrow> ('w, 'b) prog) \<Rightarrow> ('w, 'b) prog" where
  "bind m f s = (case m s of (Inl e, s') \<Rightarrow> (Inl e, s') | (Inr x, s') \<Rightarrow> f x s')"

definition catch :: "('w, 'a) prog \<Rightarrow> (exn \<Rightarrow> ('w, 'a) prog) \<Rightarrow> ('w, 'a) prog" where
  "catch m h s = (case m s of (Inl e, s') \<Rightarrow> h e s' | (Inr x, s') \<Rightarrow> (Inr x, s'))"

definition print :: "line \<Rightarrow> ('w, unit) prog" where
  "print l s = (Inr (), (fst s, snd s @ [Print l]))"

definition call :: "event \<Rightarrow> ('w \<Rightarrow> (exn + 'a) \<times> 'w) \<Rightarrow> ('w, 'a) prog" where
  "call ev f s = (case f (fst s) of (r, w') \<Rightarrow> (r, (w', snd s @ [ev])))"

section \<open>\<open>os.path.commonprefix\<close>\<close>

text \<open>
  The library function the analysis calls (genericpath.py), embedded like the script's
  own code, as statements that receive the state and hand it on:
  \<^verbatim>\<open>
  def commonprefix(m):
      if not m: return ''
      s1 = min(m)
      s2 = max(m)
      for i, c in enumerate(s1):
          if c != s2[i]:
              return s1[:i]
      return s1
  \<close>
  \<open>s2[i]\<close> raises IndexError when \<open>i\<close> is out of range; \<open>min\<close> and \<open>max\<close> keep the
  first of equal items.
\<close>

definition getitem :: "pystr \<Rightarrow> nat \<Rightarrow> ('w, nat) prog" where
  "getitem xs i = (if i < length xs then ret (xs ! i) else raise IndexError)"

function commonprefix_loop :: "pystr \<Rightarrow> pystr \<Rightarrow> nat \<Rightarrow> ('w, pystr) prog" where
  "commonprefix_loop s1 s2 i s =
     (if i < length s1 then
        (case getitem s2 i s of
           (Inl e, s') \<Rightarrow> (Inl e, s')
         | (Inr c, s') \<Rightarrow>
             if s1 ! i \<noteq> c then ret (take i s1) s'
             else commonprefix_loop s1 s2 (Suc i) s')
      else ret s1 s)"
  by pat_completeness auto
termination
  by (relation "measure (\<lambda>(s1, s2, i, s). length s1 - i)") auto

declare commonprefix_loop.simps [simp del]

definition py_min :: "pystr \<Rightarrow> pystr list \<Rightarrow> pystr" where
  "py_min x xs = foldl (\<lambda>acc item. if item < acc then item else acc) x xs"

definition py_max :: "pystr \<Rightarrow> pystr list \<Rightarrow> pystr" where
  "py_max x xs = foldl (\<lambda>acc item. if acc < item then item else acc) x xs"

definition commonprefix :: "pystr list \<Rightarrow> ('w, pystr) prog" where
  "commonprefix m =
     (case m of
        [] \<Rightarrow> ret []
      | x # xs \<Rightarrow> commonprefix_loop (py_min x xs) (py_max x xs) 0)"

section \<open>\<open>generate_python\<close>\<close>

definition checkpoint_path :: "path \<Rightarrow> path" where
  "checkpoint_path home =
     path_div (path_div (path_div home (py ''.cache'')) (py ''nanochat'')) (py ''model.pt'')"

text \<open>
  \<open>GPT.from_checkpoint\<close> receives \<open>str(checkpoint_path)\<close>, the text of the same path;
  the model hands it the path.
\<close>

definition generate_python ::
  "'w env \<Rightarrow> pystr \<Rightarrow> int \<Rightarrow> pyfloat \<Rightarrow> ('w, pystr option) prog" where
  "generate_python env prompt max_tokens temperature =
     bind (call Call_home (path_home env)) (\<lambda>home.
     bind (call (Call_exists (checkpoint_path home)) (path_exists env (checkpoint_path home)))
       (\<lambda>exists.
     if \<not> exists then
       bind (print (Checkpoint_not_found (checkpoint_path home))) (\<lambda>_. ret None)
     else
       bind (call Call_get_tokenizer (get_tokenizer env)) (\<lambda>tokenizer.
       bind (call (Call_from_checkpoint (checkpoint_path home))
               (from_checkpoint env (checkpoint_path home))) (\<lambda>model.
       bind (call Call_get_device (get_device env)) (\<lambda>device.
       bind (call (Call_Engine model tokenizer device) (Engine env model tokenizer device))
         (\<lambda>engine.
       bind (call (Call_generate engine prompt max_tokens temperature (PyFloat (py ''0.95'')))
               (engine_generate env engine prompt max_tokens temperature
                  (PyFloat (py ''0.95''))))
         (\<lambda>text. ret (Some text))))))))"

section \<open>\<open>generate_ruby\<close>\<close>

text \<open>
  The f-string of the source: a newline, then these lines, each ended by a newline. The
  three interpolations are \<open>repr(prompt)\<close>, \<open>max_tokens\<close> and \<open>temperature\<close>.
\<close>

definition ruby_script_lines :: "pystr \<Rightarrow> pystr \<Rightarrow> pystr \<Rightarrow> pystr list" where
  "ruby_script_lines prompt_repr max_tokens_str temperature_str =
     [ py ''require 'bundler/setup'' @ [0x27],
       py ''require 'nanochat'' @ [0x27],
       [],
       py ''checkpoint_path = File.expand_path('~/.cache/nanochat/model.pt')'',
       py ''tokenizer_dir = File.expand_path('~/.cache/nanochat/tokenizer')'',
       [],
       py ''config = Nanochat::Config.new('',
       py ''  vocab_size: 50_257,'',
       py ''  n_embd: 768,'',
       py ''  n_layer: 20,'',
       py ''  n_head: 12,'',
       py ''  n_kv_head: 4,'',
       py ''  block_size: 1024'',
       py '')'',
       [],
       py ''model = Nanochat::GPT.from_checkpoint(checkpoint_path, config)'',
       py ''tokenizer = Nanochat::Tokenizer.from_directory(tokenizer_dir)'',
       py ''engine = Nanochat::Engine.new(model, tokenizer)'',
       [],
       py ''response = engine.generate('',
       py ''  '' @ prompt_repr @ py '','',
       py ''  max_tokens: '' @ max_tokens_str @ py '','',
       py ''  temperature: '' @ temperature_str @ py '','',
       py ''  top_p: 0.95'',
       py '')'',
       [],
       py ''puts response'' ]"

definition ruby_script :: "(nat \<Rightarrow> bool) \<Rightarrow> pystr \<Rightarrow> int \<Rightarrow> pyfloat \<Rightarrow> pystr" where
  "ruby_script printable prompt max_tokens temperature =
     0x0A # concat (map (\<lambda>l. l @ [0x0A])
       (ruby_script_lines (repr printable prompt) (int_str max_tokens) (float_str temperature)))"

definition ruby_argv :: "'w env \<Rightarrow> pystr \<Rightarrow> int \<Rightarrow> pyfloat \<Rightarrow> pystr list" where
  "ruby_argv env prompt max_tokens temperature =
     [py ''ruby'', py ''-e'', ruby_script (unicode_printable env) prompt max_tokens temperature]"

definition generate_ruby ::
  "'w env \<Rightarrow> pystr \<Rightarrow> int \<Rightarrow> pyfloat \<Rightarrow> ('w, pystr option) prog" where
  "generate_ruby env prompt max_tokens temperature =
     catch
       (bind (call (Call_run (ruby_argv env prompt max_tokens temperature) True True 60)
                (subprocess_run env (ruby_argv env prompt max_tokens temperature) True True 60))
          (\<lambda>result.
             if returncode result \<noteq> 0 then
               bind (print (Ruby_error (stderr result))) (\<lambda>_. ret None)
             else ret (Some (strip (stdout result)))))
       (\<lambda>e. if e = TimeoutExpired then bind (print Ruby_timed_out) (\<lambda>_. ret None)
            else if is_Exception e then
              bind (print (Ruby_execution_failed e)) (\<lambda>_. ret None)
            else raise e)"

section \<open>\<open>compare_outputs\<close>\<close>

definition test_prompts :: "pystr list" where
  "test_prompts =
     [py ''Once upon a time'', py ''The meaning of life is'', py ''Hello, how are you?'']"

text \<open>\<open>if output:\<close> holds for a string that is not empty; \<open>None\<close> and \<open>''\<close> are false.\<close>

fun truthy :: "pystr option \<Rightarrow> bool" where
  "truthy None = False"
| "truthy (Some s) = (s \<noteq> [])"

text \<open>The \<open>if output: ... else: print("  (failed)")\<close> after each generation.\<close>

definition show_output :: "pystr option \<Rightarrow> ('w, unit) prog" where
  "show_output output =
     (case output of
        Some text \<Rightarrow> if text \<noteq> [] then print (Output_text text) else print Output_failed
      | None \<Rightarrow> print Output_failed)"

text \<open>The block under \<open># Analysis\<close>.\<close>

definition analysis :: "pystr \<Rightarrow> pystr option \<Rightarrow> pystr option \<Rightarrow> ('w, unit) prog" where
  "analysis prompt python_output ruby_output =
     (case (python_output, ruby_output) of
        (Some a, Some b) \<Rightarrow>
          if a \<noteq> [] \<and> b \<noteq> [] then
            bind (commonprefix [a, b]) (\<lambda>common_prefix.
            bind (if length prompt < length common_prefix
                  then print (Shared_prefix (length common_prefix))
                  else print Diverge) (\<lambda>_.
            bind (print (Python_length (length a))) (\<lambda>_.
            print (Ruby_length (length b)))))
          else ret ()
      | _ \<Rightarrow> ret ())"

text \<open>The part of the loop body under \<open># Generate with Python\<close>, after the header.\<close>

definition python_step :: "'w env \<Rightarrow> pystr \<Rightarrow> ('w, pystr option) prog" where
  "python_step env prompt =
     bind (print Python_label) (\<lambda>_.
     bind (generate_python env prompt 50 (PyFloat (py ''0.8''))) (\<lambda>python_output.
     bind (show_output python_output) (\<lambda>_.
     bind (print Blank) (\<lambda>_. ret python_output))))"

text \<open>The part under \<open># Generate with Ruby\<close>.\<close>

definition ruby_step :: "'w env \<Rightarrow> pystr \<Rightarrow> ('w, pystr option) prog" where
  "ruby_step env prompt =
     bind (print Ruby_label) (\<lambda>_.
     bind (generate_ruby env prompt 50 (PyFloat (py ''0.8''))) (\<lambda>ruby_output.
     bind (show_output ruby_output) (\<lambda>_.
     bind (print Blank) (\<lambda>_. ret ruby_output))))"

text \<open>One iteration of \<open>for i, prompt in enumerate(test_prompts, 1)\<close>.\<close>

definition compare_prompt :: "'w env \<Rightarrow> nat \<Rightarrow> nat \<Rightarrow> pystr \<Rightarrow> ('w, unit) prog" where
  "compare_prompt env n i prompt =
     bind (print (Test_header i n prompt)) (\<lambda>_.
     bind (print Rule_dash) (\<lambda>_.
     bind (python_step env prompt) (\<lambda>python_output.
     bind (ruby_step env prompt) (\<lambda>ruby_output.
     bind (analysis prompt python_output ruby_output) (\<lambda>_.
     bind (print Blank) (\<lambda>_.
     bind (print Rule_eq) (\<lambda>_.
     print Blank)))))))"

fun compare_loop :: "'w env \<Rightarrow> nat \<Rightarrow> nat \<Rightarrow> pystr list \<Rightarrow> ('w, unit) prog" where
  "compare_loop env n i [] = ret ()"
| "compare_loop env n i (prompt # rest) =
     bind (compare_prompt env n i prompt) (\<lambda>_. compare_loop env n (Suc i) rest)"

definition compare_outputs :: "'w env \<Rightarrow> ('w, unit) prog" where
  "compare_outputs env =
     bind (print Banner) (\<lambda>_.
     bind (print Rule_eq) (\<lambda>_.
     bind (print Blank) (\<lambda>_.
     compare_loop env (length test_prompts) 1 test_prompts)))"

section \<open>The entry point\<close>

text \<open>
  The \<open>try\<close> of \<open>__main__\<close>: the exit status and the final state. Falling off the end of
  the script exits with 0, \<open>sys.exit(1)\<close> with 1; an exception neither handler takes
  would reach the interpreter, which prints the traceback and exits with 1.
\<close>

definition main :: "'w env \<Rightarrow> 'w \<Rightarrow> int \<times> ('w \<times> event list)" where
  "main env w =
     (case compare_outputs env (w, []) of
        (Inr _, s) \<Rightarrow> (0, s)
      | (Inl e, s) \<Rightarrow>
          if e = KeyboardInterrupt then (1, (fst s, snd s @ [Print Interrupted]))
          else if is_Exception e then (1, (fst s, snd s @ [Print (Error_line e), Traceback e]))
          else (1, (fst s, snd s @ [Traceback e])))"

definition exit_code :: "'w env \<Rightarrow> 'w \<Rightarrow> int" where
  "exit_code env w = fst (main env w)"

definition events :: "'w env \<Rightarrow> 'w \<Rightarrow> event list" where
  "events env w = snd (snd (main env w))"

section \<open>Observations and test doubles\<close>

text \<open>The events a statement adds when it starts with nothing recorded.\<close>

definition emitted :: "('w, 'a) prog \<Rightarrow> 'w \<Rightarrow> event list" where
  "emitted m w = snd (snd (m (w, [])))"

text \<open>The line that reports agreement: \<open>Outputs share common prefix\<close>.\<close>

fun is_agreement :: "event \<Rightarrow> bool" where
  "is_agreement (Print (Shared_prefix k)) = True"
| "is_agreement _ = False"

text \<open>
  A world with no state, for concrete runs: the checkpoint exists or not, the tokenizer
  loads or raises, \<open>engine.generate\<close> and \<open>subprocess.run\<close> answer by their arguments.
\<close>

definition stub_home :: path where
  "stub_home = Path [py ''/'', py ''home'', py ''user'']"

definition stub_env ::
  "bool \<Rightarrow> (exn + tokenizer) \<Rightarrow> (pystr \<Rightarrow> exn + pystr) \<Rightarrow>
   (pystr list \<Rightarrow> exn + completed_process) \<Rightarrow> unit env" where
  "stub_env exists tok gen run =
     \<lparr> unicode_printable = (\<lambda>_. False),
       path_home = (\<lambda>w. (Inr stub_home, w)),
       path_exists = (\<lambda>p w. (Inr exists, w)),
       get_tokenizer = (\<lambda>w. (tok, w)),
       from_checkpoint = (\<lambda>p w. (Inr (GPT 0), w)),
       get_device = (\<lambda>w. (Inr (Device 0), w)),
       Engine = (\<lambda>m t d w. (Inr (Engine_object 0), w)),
       engine_generate = (\<lambda>e p mt t tp w. (gen p, w)),
       subprocess_run = (\<lambda>argv co tx to w. (run argv, w)) \<rparr>"

text \<open>No checkpoint on disk; Ruby answers with a continuation.\<close>

definition env_no_checkpoint :: "unit env" where
  "env_no_checkpoint =
     stub_env False (Inr (Tokenizer 0)) (\<lambda>p. Inr (p @ py '' there was''))
       (\<lambda>argv. Inr (CompletedProcess 0 (py ''Once upon a time there was'' @ [0x0A]) []))"

text \<open>Both sides answer: Python with its continuation, Ruby with a line ended by a newline.\<close>

definition env_both_answer :: "unit env" where
  "env_both_answer =
     stub_env True (Inr (Tokenizer 0)) (\<lambda>p. Inr (p @ py '' there lived''))
       (\<lambda>argv. Inr (CompletedProcess 0 (py ''Once upon a time there was'' @ [0x0A]) []))"

text \<open>Python answers; the Ruby process does not finish within the timeout.\<close>

definition env_ruby_times_out :: "unit env" where
  "env_ruby_times_out =
     stub_env True (Inr (Tokenizer 0)) (\<lambda>p. Inr (p @ py '' there lived''))
       (\<lambda>argv. Inl TimeoutExpired)"

text \<open>No checkpoint, and the Ruby process exits with status 1.\<close>

definition env_all_fail :: "unit env" where
  "env_all_fail =
     stub_env False (Inr (Tokenizer 0)) (\<lambda>p. Inr p)
       (\<lambda>argv. Inr (CompletedProcess 1 [] (py ''cannot load such file -- nanochat'')))"

text \<open>No checkpoint, and the user interrupts while the Ruby process runs.\<close>

definition env_interrupted :: "unit env" where
  "env_interrupted =
     stub_env False (Inr (Tokenizer 0)) (\<lambda>p. Inr p) (\<lambda>argv. Inl KeyboardInterrupt)"

text \<open>The checkpoint is there, and \<open>get_tokenizer()\<close> raises.\<close>

definition env_tokenizer_fails :: "unit env" where
  "env_tokenizer_fails =
     stub_env True (Inl (OtherException (py ''tokenizer.pkl not found'')))
       (\<lambda>p. Inr (p @ py '' there lived''))
       (\<lambda>argv. Inr (CompletedProcess 0 (py ''Once upon a time there was'' @ [0x0A]) []))"

text \<open>
  \<open>engine.generate\<close> raises on the second prompt of the list; the Ruby process exits with
  status 1.
\<close>

definition env_generate_fails_on_second :: "unit env" where
  "env_generate_fails_on_second =
     stub_env True (Inr (Tokenizer 0))
       (\<lambda>p. if p = py ''The meaning of life is''
            then Inl (OtherException (py ''CUDA out of memory''))
            else Inr (p @ py '' there lived''))
       (\<lambda>argv. Inr (CompletedProcess 1 [] (py ''cannot load such file -- nanochat'')))"

text \<open>Python returns the empty text; Ruby prints a space and a newline.\<close>

definition env_blank_outputs :: "unit env" where
  "env_blank_outputs =
     stub_env True (Inr (Tokenizer 0)) (\<lambda>p. Inr [])
       (\<lambda>argv. Inr (CompletedProcess 0 [0x20, 0x0A] []))"

text \<open>A statement keeps a property of events when it only adds events that have it.\<close>

definition keeps :: "(event \<Rightarrow> bool) \<Rightarrow> ('w, 'a) prog \<Rightarrow> bool" where
  "keeps ok m = (\<forall>s. list_all ok (snd s) \<longrightarrow> list_all ok (snd (snd (m s))))"

text \<open>The header line of an iteration, and the statements that print none.\<close>

fun is_header :: "event \<Rightarrow> bool" where
  "is_header (Print (Test_header i n p)) = True"
| "is_header _ = False"

definition silent :: "('w, 'a) prog \<Rightarrow> bool" where
  "silent m = (\<forall>s. filter is_header (snd (snd (m s))) = filter is_header (snd s))"

section \<open>Lemmas about the model\<close>

lemma bind_ret: "bind (ret x) f s = f x s"
  by (simp add: bind_def ret_def)

lemma bind_eq_ok: "m s = (Inr x, s') \<Longrightarrow> bind m f s = f x s'"
  by (simp add: bind_def)

lemma bind_eq_raise: "m s = (Inl e, s') \<Longrightarrow> bind m f s = (Inl e, s')"
  by (simp add: bind_def)

lemma bind_print: "bind (print l) f (w, tr) = f () (w, tr @ [Print l])"
  by (simp add: bind_def print_def)

lemma print_apply: "print l (w, tr) = (Inr (), (w, tr @ [Print l]))"
  by (simp add: print_def)

lemma ret_apply: "ret x s = (Inr x, s)"
  by (simp add: ret_def)

lemma bind_call_ok:
  "f w = (Inr x, w') \<Longrightarrow> bind (call ev f) g (w, tr) = g x (w', tr @ [ev])"
  by (simp add: bind_def call_def)

lemma bind_call_raise:
  "f w = (Inl e, w') \<Longrightarrow> bind (call ev f) g (w, tr) = (Inl e, (w', tr @ [ev]))"
  by (simp add: bind_def call_def)

lemma generate_ruby_outcome:
  assumes "subprocess_run env (ruby_argv env prompt max_tokens temperature) True True 60 w = (out, w')"
  shows "generate_ruby env prompt max_tokens temperature (w, tr) =
    (case out of
       Inr result \<Rightarrow>
         if returncode result \<noteq> 0
         then (Inr None, (w', tr @ [Call_run (ruby_argv env prompt max_tokens temperature) True True 60,
                                   Print (Ruby_error (stderr result))]))
         else (Inr (Some (strip (stdout result))),
               (w', tr @ [Call_run (ruby_argv env prompt max_tokens temperature) True True 60]))
     | Inl e \<Rightarrow>
         if e = TimeoutExpired
         then (Inr None, (w', tr @ [Call_run (ruby_argv env prompt max_tokens temperature) True True 60,
                                   Print Ruby_timed_out]))
         else if is_Exception e
         then (Inr None, (w', tr @ [Call_run (ruby_argv env prompt max_tokens temperature) True True 60,
                                   Print (Ruby_execution_failed e)]))
         else (Inl e, (w', tr @ [Call_run (ruby_argv env prompt max_tokens temperature) True True 60])))"
  using assms
  by (cases out)
     (simp_all add: generate_ruby_def catch_def bind_def call_def print_def ret_def raise_def)

lemma lcp_len_le1: "lcp_len a b \<le> length a"
  by (induction a b rule: lcp_len.induct) auto

lemma lcp_len_le2: "lcp_len a b \<le> length b"
  by (induction a b rule: lcp_len.induct) auto

lemma lcp_len_take: "take (lcp_len a b) a = take (lcp_len a b) b"
  by (induction a b rule: lcp_len.induct) auto

lemma lcp_len_sym: "lcp_len a b = lcp_len b a"
  by (induction a b rule: lcp_len.induct) auto

lemma lcp_len_greatest:
  "take n a = take n b \<Longrightarrow> n \<le> length a \<Longrightarrow> n \<le> length b \<Longrightarrow> n \<le> lcp_len a b"
proof (induction a b arbitrary: n rule: lcp_len.induct)
  case (1 x xs y ys)
  then show ?case by (cases n) auto
qed auto

lemma lcp_len_mismatch:
  "i < length a \<Longrightarrow> i < length b \<Longrightarrow> take i a = take i b \<Longrightarrow> a ! i \<noteq> b ! i \<Longrightarrow> lcp_len a b = i"
proof (induction a b arbitrary: i rule: lcp_len.induct)
  case (1 x xs y ys)
  then show ?case by (cases i) auto
qed auto

lemma lcp_len_prefix:
  "take (length a) b = a \<Longrightarrow> lcp_len a b = length a"
  by (induction a b rule: lcp_len.induct) auto

lemma common_prefix_length_eq: "common_prefix_length a b = lcp_len a b"
  unfolding common_prefix_length_def
proof (rule Max_eqI)
  show "finite (set (filter (\<lambda>n. take n a = take n b) [0..<Suc (min (length a) (length b))]))"
    by simp
next
  fix y assume "y \<in> set (filter (\<lambda>n. take n a = take n b) [0..<Suc (min (length a) (length b))])"
  then show "y \<le> lcp_len a b" by (auto simp del: upt_Suc intro: lcp_len_greatest)
next
  show "lcp_len a b \<in> set (filter (\<lambda>n. take n a = take n b) [0..<Suc (min (length a) (length b))])"
    using lcp_len_le1[of a b] lcp_len_le2[of a b] lcp_len_take[of a b]
    by (auto simp del: upt_Suc)
qed

lemma le_not_proper_prefix:
  fixes s1 s2 :: pystr
  assumes "s1 \<le> s2" "take i s1 = take i s2" "i < length s1"
  shows "i < length s2"
proof (rule ccontr)
  assume "\<not> i < length s2"
  then have "take i s2 = s2" by simp
  with assms have s2: "s2 = take i s1" by simp
  have "s1 = take i s1 @ drop i s1" by simp
  moreover have "drop i s1 \<noteq> []" using assms(3) by simp
  ultimately have "s2 < s1" unfolding s2 list_less_def
    by (metis lexord_append_rightI neq_Nil_conv)
  with assms(1) show False by simp
qed

lemma commonprefix_loop_le:
  "s1 \<le> s2 \<Longrightarrow> take i s1 = take i s2 \<Longrightarrow>
   commonprefix_loop s1 s2 i s = (Inr (take (lcp_len s1 s2) s1), s)"
proof (induction s1 s2 i s rule: commonprefix_loop.induct)
  case (1 s1 s2 i s)
  note le = \<open>s1 \<le> s2\<close> and pre = \<open>take i s1 = take i s2\<close>
  show ?case
  proof (cases "i < length s1")
    case False
    then have "take (length s1) s2 = s1" using pre
      by (metis linorder_not_less take_all take_take min.absorb1 nat_le_linear)
    then have "lcp_len s1 s2 = length s1" by (rule lcp_len_prefix)
    with False show ?thesis by (simp add: commonprefix_loop.simps[of s1 s2 i s] ret_def)
  next
    case True
    have i2: "i < length s2" by (rule le_not_proper_prefix[OF le pre True])
    then have get: "getitem s2 i s = (Inr (s2 ! i), s)"
      by (simp add: getitem_def ret_def)
    show ?thesis
    proof (cases "s1 ! i = s2 ! i")
      case False
      with True i2 pre have "lcp_len s1 s2 = i" by (simp add: lcp_len_mismatch)
      with True False show ?thesis
        by (simp add: commonprefix_loop.simps[of s1 s2 i s] get ret_def)
    next
      case eq: True
      with True i2 pre have "take (Suc i) s1 = take (Suc i) s2"
        by (simp add: take_Suc_conv_app_nth)
      with 1(1)[OF True get[symmetric] refl] eq le
      have "commonprefix_loop s1 s2 (Suc i) s = (Inr (take (lcp_len s1 s2) s1), s)" by simp
      with True eq show ?thesis
        by (simp add: commonprefix_loop.simps[of s1 s2 i s] get)
    qed
  qed
qed

lemma commonprefix_pair:
  "commonprefix [a, b] s = (Inr (take (lcp_len a b) a), s)"
proof (cases "b < a")
  case True
  then have "commonprefix [a, b] s = commonprefix_loop b a 0 s"
    by (auto simp: commonprefix_def py_min_def py_max_def)
  also have "\<dots> = (Inr (take (lcp_len b a) b), s)"
    using True by (intro commonprefix_loop_le) auto
  also have "take (lcp_len b a) b = take (lcp_len a b) a"
    using lcp_len_take[of a b] by (simp add: lcp_len_sym[of b a])
  finally show ?thesis .
next
  case False
  show ?thesis
  proof (cases "a < b")
    case True
    then have "commonprefix [a, b] s = commonprefix_loop a b 0 s"
      using False by (auto simp: commonprefix_def py_min_def py_max_def)
    also have "\<dots> = (Inr (take (lcp_len a b) a), s)"
      using True by (intro commonprefix_loop_le) auto
    finally show ?thesis .
  next
    case F2: False
    with False have "a = b" by simp
    then have "commonprefix [a, b] s = commonprefix_loop a b 0 s"
      by (auto simp: commonprefix_def py_min_def py_max_def)
    also have "\<dots> = (Inr (take (lcp_len a b) a), s)"
      using \<open>a = b\<close> by (intro commonprefix_loop_le) auto
    finally show ?thesis .
  qed
qed

lemma length_take_lcp: "length (take (lcp_len a b) a) = lcp_len a b"
  using lcp_len_le1[of a b] by simp

lemma analysis_both:
  assumes "a \<noteq> []" "b \<noteq> []"
  shows "analysis P (Some a) (Some b) (w, tr) =
    (Inr (), (w, tr @ [Print (if length P < lcp_len a b then Shared_prefix (lcp_len a b) else Diverge),
                       Print (Python_length (length a)), Print (Ruby_length (length b))]))"
  using assms
  by (simp add: analysis_def bind_eq_ok[where m="commonprefix [a, b]", OF commonprefix_pair]
      bind_print print_apply length_take_lcp del: length_take)

lemma analysis_skipped:
  "\<not> (truthy pa \<and> truthy rb) \<Longrightarrow> analysis P pa rb s = (Inr (), s)"
  by (cases pa; cases rb) (auto simp: analysis_def ret_def)

lemma strip_all_space:
  assumes "list_all isspace s"
  shows "strip s = []"
proof -
  from assms have "dropWhile isspace s = []"
    by (induction s) simp_all
  then show ?thesis by (simp only: strip_def rev.simps dropWhile.simps)
qed

lemma compare_prompt_unfold:
  "compare_prompt env n i prompt (w, tr) =
     bind (python_step env prompt) (\<lambda>python_output.
     bind (ruby_step env prompt) (\<lambda>ruby_output.
     bind (analysis prompt python_output ruby_output) (\<lambda>_.
     bind (print Blank) (\<lambda>_.
     bind (print Rule_eq) (\<lambda>_.
     print Blank))))) (w, tr @ [Print (Test_header i n prompt), Print Rule_dash])"
  by (simp add: compare_prompt_def bind_print)

lemma ruby_step_trace:
  "\<exists>r w' rest. ruby_step env p (w, tr) =
     (r, (w', tr @ [Print Ruby_label,
                    Call_run (ruby_argv env p 50 (PyFloat (py ''0.8''))) True True 60] @ rest))"
proof -
  obtain out w' where run:
    "subprocess_run env (ruby_argv env p 50 (PyFloat (py ''0.8''))) True True 60 w = (out, w')"
    by (cases "subprocess_run env (ruby_argv env p 50 (PyFloat (py ''0.8''))) True True 60 w")
  show ?thesis
    unfolding ruby_step_def bind_print
    by (simp add: bind_def generate_ruby_outcome[OF run] show_output_def print_apply ret_apply
        split: sum.splits option.splits)
qed


lemma analysis_emitted:
  "analysis P (Some a) (Some b) (w, tr) =
     (Inr (), (w, tr @ (if a \<noteq> [] \<and> b \<noteq> [] then
          [Print (if length P < common_prefix_length a b
                  then Shared_prefix (common_prefix_length a b) else Diverge),
           Print (Python_length (length a)), Print (Ruby_length (length b))]
        else [])))"
proof (cases "a \<noteq> [] \<and> b \<noteq> []")
  case True
  then show ?thesis by (simp add: analysis_both common_prefix_length_eq)
next
  case False
  then have "\<not> (truthy (Some a) \<and> truthy (Some b))" by simp
  then have "analysis P (Some a) (Some b) (w, tr) = (Inr (), (w, tr))"
    by (rule analysis_skipped)
  with False show ?thesis by simp
qed

lemma analysis_no_ruby: "analysis P pa None s = (Inr (), s)"
  by (rule analysis_skipped) simp

lemma analysis_no_python: "analysis P None rb s = (Inr (), s)"
  by (rule analysis_skipped) simp

lemma analysis_empty_python: "analysis P (Some []) rb s = (Inr (), s)"
  by (rule analysis_skipped) simp

lemma analysis_empty_ruby: "analysis P pa (Some []) s = (Inr (), s)"
  by (rule analysis_skipped) simp

lemma compare_loop_step:
  assumes "compare_prompt env n i prompt s = (Inr (), s')"
  shows "compare_loop env n i (prompt # rest) s = compare_loop env n (Suc i) rest s'"
  using assms by (simp add: bind_def)

lemma python_step_stub_ok:
  "python_step (stub_env True (Inr tok) gen run) prompt ((), tr) =
     (case gen prompt of
        Inl e \<Rightarrow> (Inl e, ((), tr @ [Print Python_label, Call_home,
                    Call_exists (checkpoint_path stub_home), Call_get_tokenizer,
                    Call_from_checkpoint (checkpoint_path stub_home), Call_get_device,
                    Call_Engine (GPT 0) tok (Device 0),
                    Call_generate (Engine_object 0) prompt 50 (PyFloat (py ''0.8''))
                      (PyFloat (py ''0.95''))]))
      | Inr text \<Rightarrow> (Inr (Some text), ((), tr @ [Print Python_label, Call_home,
                    Call_exists (checkpoint_path stub_home), Call_get_tokenizer,
                    Call_from_checkpoint (checkpoint_path stub_home), Call_get_device,
                    Call_Engine (GPT 0) tok (Device 0),
                    Call_generate (Engine_object 0) prompt 50 (PyFloat (py ''0.8''))
                      (PyFloat (py ''0.95'')),
                    Print (if text \<noteq> [] then Output_text text else Output_failed),
                    Print Blank])))"
  by (simp add: python_step_def generate_python_def stub_env_def bind_def call_def print_def
      ret_def show_output_def split: sum.splits)

lemma show_output_apply:
  "show_output out (w, tr) =
     (Inr (), (w, tr @ [Print (case out of None \<Rightarrow> Output_failed
                               | Some t \<Rightarrow> if t \<noteq> [] then Output_text t else Output_failed)]))"
  by (simp add: show_output_def print_def split: option.splits)

lemma analysis_returns: "\<exists>s'. analysis P pa rb s = (Inr (), s')"
proof (cases pa)
  case None
  then show ?thesis by (simp add: analysis_no_python)
next
  case (Some a)
  show ?thesis
  proof (cases rb)
    case None
    then show ?thesis by (simp add: analysis_no_ruby)
  next
    case (Some b)
    with \<open>pa = Some a\<close> show ?thesis
      by (cases s) (simp add: analysis_emitted)
  qed
qed

lemma python_step_returns:
  assumes "\<And>s. \<exists>a s'. generate_python env p 50 (PyFloat (py ''0.8'')) s = (Inr a, s')"
  shows "\<exists>a s'. python_step env p s = (Inr a, s')"
proof -
  obtain w tr where s: "s = (w, tr)" by (cases s)
  obtain a w1 tr1 where
    gp: "generate_python env p 50 (PyFloat (py ''0.8'')) (w, tr @ [Print Python_label])
           = (Inr a, (w1, tr1))"
    using assms[of "(w, tr @ [Print Python_label])"] by auto
  show ?thesis
    unfolding s python_step_def
    by (simp add: bind_print
        bind_eq_ok[where m="generate_python env p 50 (PyFloat (py ''0.8''))", OF gp]
        bind_eq_ok[where m="show_output a", OF show_output_apply] ret_apply)
qed

lemma generate_ruby_returns:
  assumes "\<And>argv w. fst (subprocess_run env argv True True 60 w) \<noteq> Inl KeyboardInterrupt"
  shows "\<exists>b s'. generate_ruby env p mt t s = (Inr b, s')"
proof -
  obtain w tr where s: "s = (w, tr)" by (cases s)
  obtain out w' where run: "subprocess_run env (ruby_argv env p mt t) True True 60 w = (out, w')"
    by (cases "subprocess_run env (ruby_argv env p mt t) True True 60 w")
  with assms[of "ruby_argv env p mt t" w] have "out \<noteq> Inl KeyboardInterrupt" by simp
  then show ?thesis
    unfolding s generate_ruby_outcome[OF run]
    by (cases out) (auto elim: is_Exception.elims)
qed

lemma ruby_step_returns:
  assumes "\<And>argv w. fst (subprocess_run env argv True True 60 w) \<noteq> Inl KeyboardInterrupt"
  shows "\<exists>b s'. ruby_step env p s = (Inr b, s')"
proof -
  obtain w tr where s: "s = (w, tr)" by (cases s)
  obtain b w1 tr1 where
    gr: "generate_ruby env p 50 (PyFloat (py ''0.8'')) (w, tr @ [Print Ruby_label])
           = (Inr b, (w1, tr1))"
    using generate_ruby_returns[OF assms, of p 50 "PyFloat (py ''0.8'')" "(w, tr @ [Print Ruby_label])"]
    by auto
  show ?thesis
    unfolding s ruby_step_def
    by (simp add: bind_print
        bind_eq_ok[where m="generate_ruby env p 50 (PyFloat (py ''0.8''))", OF gr]
        bind_eq_ok[where m="show_output b", OF show_output_apply] ret_apply)
qed

lemma compare_prompt_returns:
  assumes py: "\<And>p s. \<exists>a s'. generate_python env p 50 (PyFloat (py ''0.8'')) s = (Inr a, s')"
    and rb: "\<And>argv w. fst (subprocess_run env argv True True 60 w) \<noteq> Inl KeyboardInterrupt"
  shows "\<exists>s'. compare_prompt env n i p s = (Inr (), s')"
proof -
  obtain w tr where s: "s = (w, tr)" by (cases s)
  obtain a s1 where ps: "python_step env p (w, tr @ [Print (Test_header i n p), Print Rule_dash])
      = (Inr a, s1)"
    using python_step_returns[of env p, OF py] by blast
  obtain b s2 where rs: "ruby_step env p s1 = (Inr b, s2)"
    using ruby_step_returns[of env p, OF rb] by blast
  obtain s3 where an: "analysis p a b s2 = (Inr (), s3)"
    using analysis_returns by blast
  obtain w3 tr3 where s3: "s3 = (w3, tr3)" by (cases s3)
  show ?thesis
    unfolding s compare_prompt_unfold
    by (simp add: bind_eq_ok[where m="python_step env p", OF ps]
        bind_eq_ok[where m="ruby_step env p", OF rs]
        bind_eq_ok[where m="analysis p a b", OF an] s3 bind_print print_apply)
qed

lemma compare_loop_returns:
  assumes py: "\<And>p s. \<exists>a s'. generate_python env p 50 (PyFloat (py ''0.8'')) s = (Inr a, s')"
    and rb: "\<And>argv w. fst (subprocess_run env argv True True 60 w) \<noteq> Inl KeyboardInterrupt"
  shows "\<exists>s'. compare_loop env n i ps s = (Inr (), s')"
proof (induction ps arbitrary: i s)
  case Nil
  show ?case by (simp add: ret_apply)
next
  case (Cons p ps)
  obtain s1 where "compare_prompt env n i p s = (Inr (), s1)"
    using compare_prompt_returns[of env, OF py rb] by blast
  then have "compare_loop env n i (p # ps) s = compare_loop env n (Suc i) ps s1"
    by (rule compare_loop_step)
  with Cons.IH[of "Suc i" s1] show ?case by simp
qed

lemma compare_outputs_returns:
  assumes py: "\<And>p s. \<exists>a s'. generate_python env p 50 (PyFloat (py ''0.8'')) s = (Inr a, s')"
    and rb: "\<And>argv w. fst (subprocess_run env argv True True 60 w) \<noteq> Inl KeyboardInterrupt"
  shows "\<exists>s'. compare_outputs env (w, tr) = (Inr (), s')"
  unfolding compare_outputs_def
  using compare_loop_returns[of env, OF py rb]
  by (simp add: bind_print)

lemma keeps_ret: "keeps ok (ret x)"
  by (simp add: keeps_def ret_def)

lemma keeps_raise: "keeps ok (raise e)"
  by (simp add: keeps_def raise_def)

lemma keeps_commonprefix: "keeps ok (commonprefix [a, b])"
  by (simp add: keeps_def commonprefix_pair)

lemma keeps_print: "ok (Print l) \<Longrightarrow> keeps ok (print l)"
  by (simp add: keeps_def print_def)

lemma keeps_call: "ok ev \<Longrightarrow> keeps ok (call ev f)"
  by (simp add: keeps_def call_def split: prod.splits)

lemma keeps_bind: "keeps ok m \<Longrightarrow> (\<And>x. keeps ok (f x)) \<Longrightarrow> keeps ok (bind m f)"
  unfolding keeps_def bind_def
  by (auto split: prod.splits sum.splits) (metis snd_conv)+

lemma keeps_catch: "keeps ok m \<Longrightarrow> (\<And>e. keeps ok (h e)) \<Longrightarrow> keeps ok (catch m h)"
  unfolding keeps_def catch_def
  by (auto split: prod.splits sum.splits) (metis snd_conv)+

lemma keeps_if: "keeps ok a \<Longrightarrow> keeps ok b \<Longrightarrow> keeps ok (if c then a else b)"
  by simp

lemmas keeps_intros =
  keeps_bind keeps_catch keeps_if keeps_ret keeps_raise keeps_commonprefix keeps_print keeps_call

lemma keeps_generate_python:
  assumes "ok Call_home" "\<And>p. ok (Call_exists p)" "\<And>l. ok (Print l)" "ok Call_get_tokenizer"
    "\<And>p. ok (Call_from_checkpoint p)" "ok Call_get_device" "\<And>m t d. ok (Call_Engine m t d)"
    "\<And>e. ok (Call_generate e prompt max_tokens temperature (PyFloat (py ''0.95'')))"
  shows "keeps ok (generate_python env prompt max_tokens temperature)"
  unfolding generate_python_def
  by (intro keeps_intros) (simp_all add: assms)

lemma keeps_generate_ruby:
  assumes "\<And>l. ok (Print l)"
    "ok (Call_run (ruby_argv env prompt max_tokens temperature) True True 60)"
  shows "keeps ok (generate_ruby env prompt max_tokens temperature)"
  unfolding generate_ruby_def
  by (intro keeps_intros) (simp_all add: assms)

lemma keeps_show_output:
  assumes "\<And>l. ok (Print l)"
  shows "keeps ok (show_output out)"
  unfolding show_output_def
  by (cases out) (auto intro!: keeps_intros assms)

lemma keeps_analysis:
  assumes "\<And>l. ok (Print l)"
  shows "keeps ok (analysis P pa rb)"
  unfolding analysis_def
  by (cases pa; cases rb) (auto intro!: keeps_intros assms)

lemma keeps_compare_prompt:
  assumes "ok Call_home" "\<And>p. ok (Call_exists p)" "\<And>l. ok (Print l)" "ok Call_get_tokenizer"
    "\<And>p. ok (Call_from_checkpoint p)" "ok Call_get_device" "\<And>m t d. ok (Call_Engine m t d)"
    "\<And>e. ok (Call_generate e prompt 50 (PyFloat (py ''0.8'')) (PyFloat (py ''0.95'')))"
    "ok (Call_run (ruby_argv env prompt 50 (PyFloat (py ''0.8''))) True True 60)"
  shows "keeps ok (compare_prompt env n i prompt)"
  unfolding compare_prompt_def python_step_def ruby_step_def
  by (intro keeps_intros keeps_generate_python keeps_generate_ruby keeps_show_output
      keeps_analysis) (simp_all add: assms)

lemma repr_test_prompts:
  "list_all (\<lambda>p. repr printable p = 0x27 # p @ [0x27]) test_prompts"
  by (simp add: test_prompts_def repr_def repr_char_def py_def)

lemma int_str_50: "int_str 50 = py ''50''"
  by (simp add: int_str_def py_def)

lemma ruby_argv_text:
  "ruby_argv env prompt 50 (PyFloat (py ''0.8'')) =
     [py ''ruby'', py ''-e'',
      0x0A # concat (map (\<lambda>l. l @ [0x0A])
        [ py ''require 'bundler/setup'' @ [0x27],
          py ''require 'nanochat'' @ [0x27],
          [],
          py ''checkpoint_path = File.expand_path('~/.cache/nanochat/model.pt')'',
          py ''tokenizer_dir = File.expand_path('~/.cache/nanochat/tokenizer')'',
          [],
          py ''config = Nanochat::Config.new('',
          py ''  vocab_size: 50_257,'',
          py ''  n_embd: 768,'',
          py ''  n_layer: 20,'',
          py ''  n_head: 12,'',
          py ''  n_kv_head: 4,'',
          py ''  block_size: 1024'',
          py '')'',
          [],
          py ''model = Nanochat::GPT.from_checkpoint(checkpoint_path, config)'',
          py ''tokenizer = Nanochat::Tokenizer.from_directory(tokenizer_dir)'',
          py ''engine = Nanochat::Engine.new(model, tokenizer)'',
          [],
          py ''response = engine.generate('',
          py ''  '' @ repr (unicode_printable env) prompt @ py '','',
          py ''  max_tokens: 50,'',
          py ''  temperature: 0.8,'',
          py ''  top_p: 0.95'',
          py '')'',
          [],
          py ''puts response'' ])]"
  by (simp add: ruby_argv_def ruby_script_def ruby_script_lines_def int_str_50 py_def)

lemma silent_ret: "silent (ret x)"
  by (simp add: silent_def ret_def)

lemma silent_raise: "silent (raise e)"
  by (simp add: silent_def raise_def)

lemma silent_commonprefix: "silent (commonprefix [a, b])"
  by (simp add: silent_def commonprefix_pair)

lemma silent_print: "\<not> is_header (Print l) \<Longrightarrow> silent (print l)"
  by (simp add: silent_def print_def)

lemma silent_call: "\<not> is_header ev \<Longrightarrow> silent (call ev f)"
  by (simp add: silent_def call_def split: prod.splits)

lemma silent_bind: "silent m \<Longrightarrow> (\<And>x. silent (f x)) \<Longrightarrow> silent (bind m f)"
  unfolding silent_def bind_def
  by (auto split: prod.splits sum.splits) (metis snd_conv)+

lemma silent_catch: "silent m \<Longrightarrow> (\<And>e. silent (h e)) \<Longrightarrow> silent (catch m h)"
  unfolding silent_def catch_def
  by (auto split: prod.splits sum.splits) (metis snd_conv)+

lemma silent_if: "silent a \<Longrightarrow> silent b \<Longrightarrow> silent (if c then a else b)"
  by simp

lemmas silent_intros =
  silent_bind silent_catch silent_if silent_ret silent_raise silent_commonprefix silent_print silent_call

lemma silent_generate_python: "silent (generate_python env prompt max_tokens temperature)"
  unfolding generate_python_def
  by (intro silent_intros) simp_all

lemma silent_generate_ruby: "silent (generate_ruby env prompt max_tokens temperature)"
  unfolding generate_ruby_def
  by (intro silent_intros) simp_all

lemma silent_show_output: "silent (show_output out)"
  unfolding show_output_def
  by (cases out) (auto intro!: silent_intros)

lemma silent_analysis: "silent (analysis P pa rb)"
  unfolding analysis_def
  by (cases pa; cases rb) (auto intro!: silent_intros)

lemma compare_prompt_header:
  "filter is_header (snd (snd (compare_prompt env n i prompt s))) =
     filter is_header (snd s) @ [Print (Test_header i n prompt)]"
proof -
  obtain w tr where s: "s = (w, tr)" by (cases s)
  have "silent
     (bind (python_step env prompt) (\<lambda>python_output.
      bind (ruby_step env prompt) (\<lambda>ruby_output.
      bind (analysis prompt python_output ruby_output) (\<lambda>_.
      bind (print Blank) (\<lambda>_.
      bind (print Rule_eq) (\<lambda>_.
      print Blank))))))"
    unfolding python_step_def ruby_step_def
    by (intro silent_intros silent_generate_python silent_generate_ruby silent_show_output
        silent_analysis) simp_all
  then show ?thesis
    unfolding s compare_prompt_unfold silent_def by simp
qed

text \<open>
  The loop prints the headers of the first \<open>k\<close> prompts, in list order and numbered from
  \<open>i\<close>; when it returns, \<open>k\<close> is the length of the list: every prompt was attempted.
\<close>

lemma prompts_are_attempted_in_order:
  "\<exists>k\<le>length prompts.
     filter is_header (snd (snd (compare_loop env n i prompts s))) =
       filter is_header (snd s) @
       map (\<lambda>(j, p). Print (Test_header j n p)) (zip [i..<i + k] (take k prompts))
     \<and> (fst (compare_loop env n i prompts s) = Inr () \<longrightarrow> k = length prompts)"
proof (induction prompts arbitrary: i s)
  case Nil
  show ?case by (simp add: ret_apply)
next
  case (Cons p ps)
  obtain r s1 where cp: "compare_prompt env n i p s = (r, s1)"
    by (cases "compare_prompt env n i p s")
  have h1: "filter is_header (snd s1) = filter is_header (snd s) @ [Print (Test_header i n p)]"
    using compare_prompt_header[of env n i p s] by (simp add: cp)
  show ?case
  proof (cases r)
    case (Inl e)
    with cp have "compare_loop env n i (p # ps) s = (Inl e, s1)"
      by (simp add: bind_def)
    with h1 show ?thesis
      by (intro exI[of _ 1]) (simp add: upt_conv_Cons)
  next
    case (Inr u)
    with cp have loop: "compare_loop env n i (p # ps) s = compare_loop env n (Suc i) ps s1"
      by (simp add: bind_def)
    from Cons.IH[of "Suc i" s1] obtain k where k: "k \<le> length ps"
      "filter is_header (snd (snd (compare_loop env n (Suc i) ps s1))) =
         filter is_header (snd s1) @
         map (\<lambda>(j, p). Print (Test_header j n p)) (zip [Suc i..<Suc i + k] (take k ps))"
      "fst (compare_loop env n (Suc i) ps s1) = Inr () \<longrightarrow> k = length ps"
      by blast
    show ?thesis
      using k h1 unfolding loop
      by (intro exI[of _ "Suc k"]) (simp add: upt_conv_Cons)
  qed
qed

section \<open>The claims\<close>

text \<open>
  C2. Whenever both generators return a text, the analysis prints the agreement line if
  and only if the length of the longest common leading substring of the two texts is
  greater than the length of the prompt. The second part gives the lines printed: when
  both texts are non-empty, the agreement or the divergence line and the two lengths;
  nothing when one of them is empty.
\<close>

theorem agreement_iff_common_prefix_exceeds_prompt:
  "list_ex is_agreement (emitted (analysis P (Some a) (Some b)) w)
     = (length P < common_prefix_length a b)
   \<and> emitted (analysis P (Some a) (Some b)) w =
       (if a \<noteq> [] \<and> b \<noteq> [] then
          [Print (if length P < common_prefix_length a b
                  then Shared_prefix (common_prefix_length a b) else Diverge),
           Print (Python_length (length a)), Print (Ruby_length (length b))]
        else [])"
proof (cases "a \<noteq> [] \<and> b \<noteq> []")
  case True
  then show ?thesis
    by (simp add: emitted_def analysis_both common_prefix_length_eq)
next
  case False
  then have "\<not> (truthy (Some a) \<and> truthy (Some b))" by simp
  then have "emitted (analysis P (Some a) (Some b)) w = []"
    by (simp add: emitted_def analysis_skipped del: truthy.simps)
  moreover from False have "lcp_len a b = 0" by (cases a; cases b) auto
  ultimately show ?thesis using False by (simp add: common_prefix_length_eq)
qed

theorem agreement_iff_common_prefix_exceeds_prompt_witness:
  "list_ex is_agreement
     (emitted (analysis (py ''Hello'') (Some (py ''Hello world'')) (Some (py ''Hello you''))) ())
   \<and> 5 < common_prefix_length (py ''Hello world'') (py ''Hello you'')"
  using agreement_iff_common_prefix_exceeds_prompt
          [of "py ''Hello''" "py ''Hello world''" "py ''Hello you''" "()"]
  by (simp add: common_prefix_length_eq py_def)

text \<open>
  C9. \<open>os.path.commonprefix\<close> is embedded as a program that receives the state of the
  world, like every other statement of the script. On two strings its result depends on
  the strings alone: it raises nothing, hands the state on untouched (no event, no change
  of the world), returns the longest common leading substring, returns the same text when
  run twice in a row, and the same in any two states, whatever their worlds and records.
\<close>

theorem commonprefix_is_pure:
  "commonprefix [a, b] s = (Inr (take (common_prefix_length a b) a), s)
   \<and> bind (commonprefix [a, b]) (\<lambda>r1.
       bind (commonprefix [a, b]) (\<lambda>r2. ret (r1, r2))) s
     = (Inr (take (common_prefix_length a b) a, take (common_prefix_length a b) a), s)
   \<and> fst (commonprefix [a, b] s) = fst (commonprefix [a, b] s')"
  by (simp add: commonprefix_pair bind_eq_ok[where m="commonprefix [a, b]", OF commonprefix_pair]
      ret_def common_prefix_length_eq)

text \<open>
  C3. When the checkpoint path does not exist, \<open>generate_python\<close> returns \<open>None\<close> without
  raising, after asking only for the home directory and whether the path exists: no
  tokenizer, model, device or engine is touched. The iteration goes on to the Ruby
  side: the next call recorded is \<open>subprocess.run\<close> for the same prompt.
\<close>

theorem missing_checkpoint_only_skips_python:
  assumes home: "path_home env w = (Inr home, w1)"
    and missing: "path_exists env (checkpoint_path home) w1 = (Inr False, w2)"
  shows "generate_python env prompt max_tokens temperature (w, tr) =
           (Inr None, (w2, tr @ [Call_home, Call_exists (checkpoint_path home),
                                 Print (Checkpoint_not_found (checkpoint_path home))]))
       \<and> (\<exists>r w3 rest. compare_prompt env n i prompt (w, tr) =
           (r, (w3, tr @ [Print (Test_header i n prompt), Print Rule_dash, Print Python_label,
                          Call_home, Call_exists (checkpoint_path home),
                          Print (Checkpoint_not_found (checkpoint_path home)),
                          Print Output_failed, Print Blank, Print Ruby_label,
                          Call_run (ruby_argv env prompt 50 (PyFloat (py ''0.8''))) True True 60]
                     @ rest)))"
proof
  show gp: "generate_python env prompt max_tokens temperature (w, tr) =
           (Inr None, (w2, tr @ [Call_home, Call_exists (checkpoint_path home),
                                 Print (Checkpoint_not_found (checkpoint_path home))]))" for max_tokens temperature tr
    using home missing
    by (simp add: generate_python_def bind_def call_def print_def ret_def)
  let ?tr1 = "tr @ [Print (Test_header i n prompt), Print Rule_dash, Print Python_label,
                    Call_home, Call_exists (checkpoint_path home),
                    Print (Checkpoint_not_found (checkpoint_path home)),
                    Print Output_failed, Print Blank]"
  have ps: "python_step env prompt (w, tr @ [Print (Test_header i n prompt), Print Rule_dash])
      = (Inr None, (w2, ?tr1))"
    by (simp add: python_step_def bind_print bind_def gp show_output_def print_apply ret_apply)
  obtain r w3 rest where rs: "ruby_step env prompt (w2, ?tr1) =
     (r, (w3, ?tr1 @ [Print Ruby_label,
                    Call_run (ruby_argv env prompt 50 (PyFloat (py ''0.8''))) True True 60] @ rest))"
    using ruby_step_trace[of env prompt w2 ?tr1] by blast
  show "\<exists>r w3 rest. compare_prompt env n i prompt (w, tr) =
           (r, (w3, tr @ [Print (Test_header i n prompt), Print Rule_dash, Print Python_label,
                          Call_home, Call_exists (checkpoint_path home),
                          Print (Checkpoint_not_found (checkpoint_path home)),
                          Print Output_failed, Print Blank, Print Ruby_label,
                          Call_run (ruby_argv env prompt 50 (PyFloat (py ''0.8''))) True True 60]
                     @ rest))"
  proof (cases r)
    case (Inl e)
    with rs have rs': "ruby_step env prompt (w2, ?tr1) =
     (Inl e, (w3, ?tr1 @ [Print Ruby_label,
                    Call_run (ruby_argv env prompt 50 (PyFloat (py ''0.8''))) True True 60] @ rest))"
      by simp
    show ?thesis
      by (simp add: compare_prompt_unfold bind_eq_ok[where m="python_step env prompt", OF ps] bind_eq_raise[where m="ruby_step env prompt", OF rs'])
  next
    case (Inr rb)
    with rs have rs': "ruby_step env prompt (w2, ?tr1) =
     (Inr rb, (w3, ?tr1 @ [Print Ruby_label,
                    Call_run (ruby_argv env prompt 50 (PyFloat (py ''0.8''))) True True 60] @ rest))"
      by simp
    show ?thesis
      by (simp add: compare_prompt_unfold bind_eq_ok[where m="python_step env prompt", OF ps] bind_eq_ok[where m="ruby_step env prompt", OF rs'] analysis_def
          bind_ret bind_print print_apply)
  qed
qed

theorem missing_checkpoint_only_skips_python_witness:
  "generate_python env_no_checkpoint (py ''Once upon a time'') 50 (PyFloat (py ''0.8'')) ((), []) =
     (Inr None, ((), [] @ [Call_home, Call_exists (checkpoint_path stub_home),
                      Print (Checkpoint_not_found (checkpoint_path stub_home))]))
   \<and> (\<exists>r w3 rest. compare_prompt env_no_checkpoint 3 1 (py ''Once upon a time'') ((), []) =
         (r, (w3, [] @ [Print (Test_header 1 3 (py ''Once upon a time'')), Print Rule_dash,
                        Print Python_label, Call_home, Call_exists (checkpoint_path stub_home),
                        Print (Checkpoint_not_found (checkpoint_path stub_home)),
                        Print Output_failed, Print Blank, Print Ruby_label,
                        Call_run (ruby_argv env_no_checkpoint (py ''Once upon a time'') 50
                                    (PyFloat (py ''0.8''))) True True 60]
                   @ rest)))"
proof -
  have home: "path_home env_no_checkpoint () = (Inr stub_home, ())"
    by (simp add: env_no_checkpoint_def stub_env_def)
  have missing: "path_exists env_no_checkpoint (checkpoint_path stub_home) () = (Inr False, ())"
    by (simp add: env_no_checkpoint_def stub_env_def)
  show ?thesis
    by (rule missing_checkpoint_only_skips_python[OF home missing])
qed

text \<open>
  C5 (as amended). When the Ruby process exits with status 0, \<open>generate_ruby\<close> returns
  the captured standard output with the whitespace at both ends removed, and nothing else
  is printed. The analysis compares the characters of the Python text and of that stripped
  text as they are: the length it reports and tests against the prompt is the length of
  their longest common leading substring.
\<close>

theorem ruby_success_returns_stripped_stdout:
  assumes run: "subprocess_run env (ruby_argv env prompt max_tokens temperature) True True 60 w
                  = (Inr result, w')"
    and ok: "returncode result = 0"
  shows "generate_ruby env prompt max_tokens temperature (w, tr) =
           (Inr (Some (strip (stdout result))),
            (w', tr @ [Call_run (ruby_argv env prompt max_tokens temperature) True True 60]))
       \<and> emitted (analysis prompt (Some a) (Some (strip (stdout result)))) w'' =
           (if a \<noteq> [] \<and> strip (stdout result) \<noteq> [] then
              [Print (if length prompt < common_prefix_length a (strip (stdout result))
                      then Shared_prefix (common_prefix_length a (strip (stdout result)))
                      else Diverge),
               Print (Python_length (length a)),
               Print (Ruby_length (length (strip (stdout result))))]
            else [])"
  using ok by (simp add: generate_ruby_outcome[OF run] emitted_def analysis_emitted)

text \<open>
  C5 as stated fails: Ruby's \<open>puts\<close> ends its output with a newline, which \<open>strip()\<close>
  removes, so the result text is not the captured standard output.
\<close>

theorem ruby_result_is_not_raw_stdout:
  "subprocess_run env_both_answer
      (ruby_argv env_both_answer (py ''Once upon a time'') 50 (PyFloat (py ''0.8''))) True True 60 ()
     = (Inr (CompletedProcess 0 (py ''Once upon a time there was'' @ [0x0A]) []), ())
   \<and> fst (generate_ruby env_both_answer (py ''Once upon a time'') 50 (PyFloat (py ''0.8'')) ((), []))
     = Inr (Some (py ''Once upon a time there was''))
   \<and> py ''Once upon a time there was'' \<noteq> py ''Once upon a time there was'' @ [0x0A]"
proof -
  have run: "subprocess_run env_both_answer
      (ruby_argv env_both_answer (py ''Once upon a time'') 50 (PyFloat (py ''0.8''))) True True 60 ()
     = (Inr (CompletedProcess 0 (py ''Once upon a time there was'' @ [0x0A]) []), ())"
    by (simp add: env_both_answer_def stub_env_def)
  have "strip (py ''Once upon a time there was'' @ [0x0A]) = py ''Once upon a time there was''"
    by (simp add: strip_def py_def isspace_def)
  then show ?thesis
    by (simp add: run generate_ruby_outcome[OF run])
qed

theorem ruby_success_returns_stripped_stdout_witness:
  "generate_ruby env_both_answer (py ''Once upon a time'') 50 (PyFloat (py ''0.8'')) ((), []) =
     (Inr (Some (py ''Once upon a time there was'')),
      ((), [Call_run (ruby_argv env_both_answer (py ''Once upon a time'') 50
                        (PyFloat (py ''0.8''))) True True 60]))
   \<and> emitted (analysis (py ''Once upon a time'') (Some (py ''Once upon a time there lived''))
                (Some (py ''Once upon a time there was''))) () =
       [Print (Shared_prefix 23), Print (Python_length 28), Print (Ruby_length 26)]"
proof -
  have run: "subprocess_run env_both_answer
      (ruby_argv env_both_answer (py ''Once upon a time'') 50 (PyFloat (py ''0.8''))) True True 60 ()
     = (Inr (CompletedProcess 0 (py ''Once upon a time there was'' @ [0x0A]) []), ())"
    by (simp add: env_both_answer_def stub_env_def)
  have ok: "returncode (CompletedProcess 0 (py ''Once upon a time there was'' @ [0x0A]) []) = 0"
    by simp
  have st: "strip (py ''Once upon a time there was'' @ [0x0A]) = py ''Once upon a time there was''"
    by (simp add: strip_def py_def isspace_def)
  have cpl: "common_prefix_length (py ''Once upon a time there lived'')
               (py ''Once upon a time there was'') = 23"
    by (simp add: common_prefix_length_eq py_def)
  show ?thesis
    using ruby_success_returns_stripped_stdout[OF run ok, of "[]"
        "py ''Once upon a time there lived''" "()"]
    by (simp add: st cpl) (simp add: py_def)
qed

text \<open>
  C4. \<open>subprocess.run\<close> is called with \<open>timeout=60\<close>. When it raises \<open>TimeoutExpired\<close>
  or any other \<open>Exception\<close>, or the process exits with a non-zero status,
  \<open>generate_ruby\<close> prints one diagnostic (the captured error stream for a non-zero
  status) and returns \<open>None\<close>; the iteration prints \<open>(failed)\<close>, skips the analysis and the
  loop goes on with the remaining prompts. (\<open>KeyboardInterrupt\<close> is not an \<open>Exception\<close>:
  it is the interrupt of C6.)
\<close>

theorem ruby_failure_is_unavailable:
  assumes run: "subprocess_run env (ruby_argv env prompt 50 (PyFloat (py ''0.8''))) True True 60 w
                  = (out, w')"
    and fails: "out = Inl TimeoutExpired \<or> (\<exists>e. out = Inl e \<and> is_Exception e)
                \<or> (\<exists>r. out = Inr r \<and> returncode r \<noteq> 0)"
    and python: "python_step env prompt (w0, tr0 @ [Print (Test_header i n prompt), Print Rule_dash])
                  = (Inr a, (w, tr))"
  shows "generate_ruby env prompt 50 (PyFloat (py ''0.8'')) (w, tr) =
           (Inr None,
            (w', tr @ [Call_run (ruby_argv env prompt 50 (PyFloat (py ''0.8''))) True True 60,
                       Print (case out of
                                Inl e \<Rightarrow> if e = TimeoutExpired then Ruby_timed_out
                                         else Ruby_execution_failed e
                              | Inr r \<Rightarrow> Ruby_error (stderr r))]))
       \<and> compare_loop env n i (prompt # rest) (w0, tr0) =
           compare_loop env n (Suc i) rest
             (w', tr @ [Print Ruby_label,
                        Call_run (ruby_argv env prompt 50 (PyFloat (py ''0.8''))) True True 60,
                        Print (case out of
                                 Inl e \<Rightarrow> if e = TimeoutExpired then Ruby_timed_out
                                          else Ruby_execution_failed e
                               | Inr r \<Rightarrow> Ruby_error (stderr r)),
                        Print Output_failed, Print Blank, Print Blank, Print Rule_eq, Print Blank])"
proof -
  let ?argv = "ruby_argv env prompt 50 (PyFloat (py ''0.8''))"
  let ?diag = "Print (case out of
                        Inl e \<Rightarrow> if e = TimeoutExpired then Ruby_timed_out
                                 else Ruby_execution_failed e
                      | Inr r \<Rightarrow> Ruby_error (stderr r))"
  have gr: "generate_ruby env prompt 50 (PyFloat (py ''0.8'')) (w, tr') =
      (Inr None, (w', tr' @ [Call_run ?argv True True 60, ?diag]))" for tr'
    using fails by (auto simp: generate_ruby_outcome[OF run])
  have rs: "ruby_step env prompt (w, tr) =
      (Inr None, (w', tr @ [Print Ruby_label, Call_run ?argv True True 60, ?diag,
                            Print Output_failed, Print Blank]))"
    by (simp add: ruby_step_def bind_print
        bind_eq_ok[where m="generate_ruby env prompt 50 (PyFloat (py ''0.8''))", OF gr]
        show_output_def bind_ret ret_apply)
  have "compare_prompt env n i prompt (w0, tr0) =
      (Inr (), (w', tr @ [Print Ruby_label, Call_run ?argv True True 60, ?diag,
                          Print Output_failed, Print Blank, Print Blank, Print Rule_eq, Print Blank]))"
    by (simp add: compare_prompt_unfold bind_eq_ok[where m="python_step env prompt", OF python]
        bind_eq_ok[where m="ruby_step env prompt", OF rs] analysis_no_ruby
        bind_eq_ok[where m="analysis prompt a None", OF analysis_no_ruby] bind_print print_apply)
  then have "compare_loop env n i (prompt # rest) (w0, tr0) =
           compare_loop env n (Suc i) rest
             (w', tr @ [Print Ruby_label, Call_run ?argv True True 60, ?diag,
                        Print Output_failed, Print Blank, Print Blank, Print Rule_eq, Print Blank])"
    by (rule compare_loop_step)
  with gr show ?thesis by blast
qed

theorem ruby_failure_is_unavailable_witness:
  "generate_ruby env_ruby_times_out (py ''Once upon a time'') 50 (PyFloat (py ''0.8''))
     ((), [Print (Test_header 1 3 (py ''Once upon a time'')), Print Rule_dash,
           Print Python_label, Call_home, Call_exists (checkpoint_path stub_home),
           Call_get_tokenizer, Call_from_checkpoint (checkpoint_path stub_home), Call_get_device,
           Call_Engine (GPT 0) (Tokenizer 0) (Device 0),
           Call_generate (Engine_object 0) (py ''Once upon a time'') 50 (PyFloat (py ''0.8''))
             (PyFloat (py ''0.95'')),
           Print (Output_text (py ''Once upon a time there lived'')), Print Blank]) =
     (Inr None,
      ((), [Print (Test_header 1 3 (py ''Once upon a time'')), Print Rule_dash,
            Print Python_label, Call_home, Call_exists (checkpoint_path stub_home),
            Call_get_tokenizer, Call_from_checkpoint (checkpoint_path stub_home), Call_get_device,
            Call_Engine (GPT 0) (Tokenizer 0) (Device 0),
            Call_generate (Engine_object 0) (py ''Once upon a time'') 50 (PyFloat (py ''0.8''))
              (PyFloat (py ''0.95'')),
            Print (Output_text (py ''Once upon a time there lived'')), Print Blank,
            Call_run (ruby_argv env_ruby_times_out (py ''Once upon a time'') 50
                        (PyFloat (py ''0.8''))) True True 60,
            Print Ruby_timed_out]))
   \<and> compare_loop env_ruby_times_out 3 1
         [py ''Once upon a time'', py ''The meaning of life is'', py ''Hello, how are you?'']
         ((), []) =
       compare_loop env_ruby_times_out 3 2
         [py ''The meaning of life is'', py ''Hello, how are you?'']
         ((), [Print (Test_header 1 3 (py ''Once upon a time'')), Print Rule_dash,
               Print Python_label, Call_home, Call_exists (checkpoint_path stub_home),
               Call_get_tokenizer, Call_from_checkpoint (checkpoint_path stub_home),
               Call_get_device, Call_Engine (GPT 0) (Tokenizer 0) (Device 0),
               Call_generate (Engine_object 0) (py ''Once upon a time'') 50
                 (PyFloat (py ''0.8'')) (PyFloat (py ''0.95'')),
               Print (Output_text (py ''Once upon a time there lived'')), Print Blank,
               Print Ruby_label,
               Call_run (ruby_argv env_ruby_times_out (py ''Once upon a time'') 50
                           (PyFloat (py ''0.8''))) True True 60,
               Print Ruby_timed_out, Print Output_failed, Print Blank, Print Blank,
               Print Rule_eq, Print Blank])"
proof -
  let ?p = "py ''Once upon a time''"
  have run: "subprocess_run env_ruby_times_out
               (ruby_argv env_ruby_times_out ?p 50 (PyFloat (py ''0.8''))) True True 60 ()
             = (Inl TimeoutExpired, ())"
    by (simp add: env_ruby_times_out_def stub_env_def)
  have fails: "(Inl TimeoutExpired :: exn + completed_process) = Inl TimeoutExpired
      \<or> (\<exists>e. (Inl TimeoutExpired :: exn + completed_process) = Inl e \<and> is_Exception e)
      \<or> (\<exists>r. (Inl TimeoutExpired :: exn + completed_process) = Inr r \<and> returncode r \<noteq> 0)"
    by simp
  have lived: "?p @ py '' there lived'' = py ''Once upon a time there lived''"
    by (simp add: py_def)
  have python: "python_step env_ruby_times_out ?p
       ((), [] @ [Print (Test_header 1 3 ?p), Print Rule_dash]) =
     (Inr (Some (py ''Once upon a time there lived'')),
      ((), [Print (Test_header 1 3 ?p), Print Rule_dash,
            Print Python_label, Call_home, Call_exists (checkpoint_path stub_home),
            Call_get_tokenizer, Call_from_checkpoint (checkpoint_path stub_home), Call_get_device,
            Call_Engine (GPT 0) (Tokenizer 0) (Device 0),
            Call_generate (Engine_object 0) ?p 50 (PyFloat (py ''0.8'')) (PyFloat (py ''0.95'')),
            Print (Output_text (py ''Once upon a time there lived'')), Print Blank]))"
    unfolding env_ruby_times_out_def python_step_stub_ok lived
    by (simp add: py_def)
  show ?thesis
    using ruby_failure_is_unavailable[OF run fails python,
        of "[py ''The meaning of life is'', py ''Hello, how are you?'']"]
    by (simp add: numeral_2_eq_2)
qed

text \<open>
  C10. An empty text is treated as \<open>None\<close> is: \<open>(failed)\<close> is printed for it and the
  analysis prints nothing. When the Ruby process exits with status 0 and its output is
  only whitespace, \<open>generate_ruby\<close> returns the empty text, and the iteration prints
  \<open>(failed)\<close> for Ruby and no analysis line.
\<close>

theorem empty_output_is_reported_as_failed:
  assumes run: "subprocess_run env (ruby_argv env prompt 50 (PyFloat (py ''0.8''))) True True 60 w
                  = (Inr result, w')"
    and ok: "returncode result = 0"
    and blank: "list_all isspace (stdout result)"
    and python: "python_step env prompt (w0, tr0 @ [Print (Test_header i n prompt), Print Rule_dash])
                  = (Inr a, (w, tr))"
  shows "show_output (Some []) (v, es) = (Inr (), (v, es @ [Print Output_failed]))
       \<and> show_output (Some []) (v, es) = show_output None (v, es)
       \<and> analysis prompt (Some []) rb s = analysis prompt None rb s
       \<and> analysis prompt pa (Some []) s = analysis prompt pa None s
       \<and> analysis prompt None rb s = (Inr (), s)
       \<and> analysis prompt pa None s = (Inr (), s)
       \<and> generate_ruby env prompt 50 (PyFloat (py ''0.8'')) (w, tr) =
           (Inr (Some []),
            (w', tr @ [Call_run (ruby_argv env prompt 50 (PyFloat (py ''0.8''))) True True 60]))
       \<and> compare_prompt env n i prompt (w0, tr0) =
           (Inr (),
            (w', tr @ [Print Ruby_label,
                       Call_run (ruby_argv env prompt 50 (PyFloat (py ''0.8''))) True True 60,
                       Print Output_failed, Print Blank, Print Blank, Print Rule_eq, Print Blank]))"
proof -
  let ?argv = "ruby_argv env prompt 50 (PyFloat (py ''0.8''))"
  have gr: "generate_ruby env prompt 50 (PyFloat (py ''0.8'')) (w, tr') =
      (Inr (Some []), (w', tr' @ [Call_run ?argv True True 60]))" for tr'
    using ok strip_all_space[OF blank] by (simp add: generate_ruby_outcome[OF run])
  have rs: "ruby_step env prompt (w, tr) =
      (Inr (Some []), (w', tr @ [Print Ruby_label, Call_run ?argv True True 60,
                                 Print Output_failed, Print Blank]))"
    by (simp add: ruby_step_def bind_print
        bind_eq_ok[where m="generate_ruby env prompt 50 (PyFloat (py ''0.8''))", OF gr]
        show_output_def bind_ret ret_apply)
  have cp: "compare_prompt env n i prompt (w0, tr0) =
      (Inr (), (w', tr @ [Print Ruby_label, Call_run ?argv True True 60,
                          Print Output_failed, Print Blank, Print Blank, Print Rule_eq, Print Blank]))"
    by (simp add: compare_prompt_unfold bind_eq_ok[where m="python_step env prompt", OF python]
        bind_eq_ok[where m="ruby_step env prompt", OF rs]
        bind_eq_ok[where m="analysis prompt a (Some [])", OF analysis_empty_ruby]
        bind_print print_apply)
  show ?thesis
    by (simp add: show_output_apply analysis_empty_python analysis_empty_ruby analysis_no_python
        analysis_no_ruby gr cp)
qed

theorem empty_output_is_reported_as_failed_witness:
  "compare_prompt env_blank_outputs 3 1 (py ''Once upon a time'') ((), []) =
     (Inr (),
      ((), [Print (Test_header 1 3 (py ''Once upon a time'')), Print Rule_dash,
            Print Python_label, Call_home, Call_exists (checkpoint_path stub_home),
            Call_get_tokenizer, Call_from_checkpoint (checkpoint_path stub_home), Call_get_device,
            Call_Engine (GPT 0) (Tokenizer 0) (Device 0),
            Call_generate (Engine_object 0) (py ''Once upon a time'') 50 (PyFloat (py ''0.8''))
              (PyFloat (py ''0.95'')),
            Print Output_failed, Print Blank, Print Ruby_label,
            Call_run (ruby_argv env_blank_outputs (py ''Once upon a time'') 50
                        (PyFloat (py ''0.8''))) True True 60,
            Print Output_failed, Print Blank, Print Blank, Print Rule_eq, Print Blank]))"
proof -
  let ?p = "py ''Once upon a time''"
  have run: "subprocess_run env_blank_outputs
               (ruby_argv env_blank_outputs ?p 50 (PyFloat (py ''0.8''))) True True 60 ()
             = (Inr (CompletedProcess 0 [0x20, 0x0A] []), ())"
    by (simp add: env_blank_outputs_def stub_env_def)
  have ok: "returncode (CompletedProcess 0 [0x20, 0x0A] []) = 0"
    by simp
  have blank: "list_all isspace (stdout (CompletedProcess 0 [0x20, 0x0A] []))"
    by (simp add: isspace_def)
  have python: "python_step env_blank_outputs ?p
       ((), [] @ [Print (Test_header 1 3 ?p), Print Rule_dash]) =
     (Inr (Some []),
      ((), [Print (Test_header 1 3 ?p), Print Rule_dash,
            Print Python_label, Call_home, Call_exists (checkpoint_path stub_home),
            Call_get_tokenizer, Call_from_checkpoint (checkpoint_path stub_home), Call_get_device,
            Call_Engine (GPT 0) (Tokenizer 0) (Device 0),
            Call_generate (Engine_object 0) ?p 50 (PyFloat (py ''0.8'')) (PyFloat (py ''0.95'')),
            Print Output_failed, Print Blank]))"
    unfolding env_blank_outputs_def python_step_stub_ok by simp
  show ?thesis
    using empty_output_is_reported_as_failed[OF run ok blank python,
        where v="()" and es="[]" and rb=None and pa=None and s="((), [])"]
    by simp
qed

text \<open>
  C1, at a failing input: the checkpoint exists and \<open>get_tokenizer()\<close> raises an
  \<open>Exception\<close> on the first prompt. \<open>generate_python\<close> has no handler, so the exception
  leaves \<open>compare_outputs\<close>: the run prints the error and exits with status 1 without
  calling Ruby and without reaching the second and third prompts.
\<close>

theorem tokenizer_failure_aborts_the_run:
  "main env_tokenizer_fails () =
     (1, ((), [Print Banner, Print Rule_eq, Print Blank,
               Print (Test_header 1 3 (py ''Once upon a time'')), Print Rule_dash,
               Print Python_label, Call_home, Call_exists (checkpoint_path stub_home),
               Call_get_tokenizer,
               Print (Error_line (OtherException (py ''tokenizer.pkl not found''))),
               Traceback (OtherException (py ''tokenizer.pkl not found''))]))"
  by (simp add: main_def compare_outputs_def test_prompts_def compare_prompt_def
      python_step_def generate_python_def env_tokenizer_fails_def stub_env_def
      bind_def call_def print_def ret_def)

text \<open>
  C6. The process exits with status 0 exactly when \<open>compare_outputs\<close> returns, and with
  status 1 exactly when an exception leaves it; then the handler's line is the last
  thing printed (\<open>Interrupted by user\<close> for a keyboard interrupt, else the error and its
  traceback). Generations that fail do not change the status: when \<open>generate_python\<close>
  always returns (a text or \<open>None\<close>) and \<open>subprocess.run\<close> is never interrupted from the
  keyboard (it may time out, fail or raise any \<open>Exception\<close>), the status is 0.
\<close>

theorem exit_status_of_the_run:
  "(exit_code env w = 0 \<longleftrightarrow> fst (compare_outputs env (w, [])) = Inr ())
   \<and> (exit_code env w = 1 \<longleftrightarrow> (\<exists>e. fst (compare_outputs env (w, [])) = Inl e))
   \<and> (\<forall>e. fst (compare_outputs env (w, [])) = Inl e \<longrightarrow>
         events env w = snd (snd (compare_outputs env (w, []))) @
           (if e = KeyboardInterrupt then [Print Interrupted]
            else [Print (Error_line e), Traceback e]))
   \<and> (fst (compare_outputs env (w, [])) = Inr () \<longrightarrow>
         events env w = snd (snd (compare_outputs env (w, []))))
   \<and> ((\<forall>p s. \<exists>a s'. generate_python env p 50 (PyFloat (py ''0.8'')) s = (Inr a, s')) \<and>
       (\<forall>argv w'. fst (subprocess_run env argv True True 60 w') \<noteq> Inl KeyboardInterrupt)
       \<longrightarrow> exit_code env w = 0)"
proof -
  obtain r s where co: "compare_outputs env (w, []) = (r, s)"
    by (cases "compare_outputs env (w, [])")
  have main: "exit_code env w = (case r of Inr _ \<Rightarrow> 0 | Inl _ \<Rightarrow> 1)"
    by (cases r) (auto simp: exit_code_def main_def co elim: is_Exception.elims)
  have ev: "events env w = snd s @
      (case r of Inr _ \<Rightarrow> []
       | Inl e \<Rightarrow> if e = KeyboardInterrupt then [Print Interrupted]
                 else [Print (Error_line e), Traceback e])"
    by (cases r) (auto simp: events_def main_def co elim: is_Exception.elims)
  have last: "exit_code env w = 0"
    if "\<forall>p s. \<exists>a s'. generate_python env p 50 (PyFloat (py ''0.8'')) s = (Inr a, s')"
      and "\<forall>argv w'. fst (subprocess_run env argv True True 60 w') \<noteq> Inl KeyboardInterrupt"
  proof -
    from that compare_outputs_returns[of env w "[]"] co have "r = Inr ()" by auto
    with main show ?thesis by simp
  qed
  show ?thesis
    using main ev last by (auto simp: co split: sum.splits)
qed

theorem exit_status_of_the_run_witness:
  "exit_code env_all_fail () = 0
   \<and> exit_code env_interrupted () = 1
   \<and> events env_interrupted () =
       [Print Banner, Print Rule_eq, Print Blank,
        Print (Test_header 1 3 (py ''Once upon a time'')), Print Rule_dash,
        Print Python_label, Call_home, Call_exists (checkpoint_path stub_home),
        Print (Checkpoint_not_found (checkpoint_path stub_home)),
        Print Output_failed, Print Blank, Print Ruby_label,
        Call_run (ruby_argv env_interrupted (py ''Once upon a time'') 50 (PyFloat (py ''0.8'')))
          True True 60,
        Print Interrupted]"
proof -
  have py: "\<forall>p s. \<exists>a s'. generate_python env_all_fail p 50 (PyFloat (py ''0.8'')) s = (Inr a, s')"
    by (simp add: generate_python_def env_all_fail_def stub_env_def bind_def call_def print_def
        ret_def)
  have rb: "\<forall>argv w'. fst (subprocess_run env_all_fail argv True True 60 w') \<noteq> Inl KeyboardInterrupt"
    by (simp add: env_all_fail_def stub_env_def)
  have ki: "compare_outputs env_interrupted ((), []) =
      (Inl KeyboardInterrupt,
       ((), [Print Banner, Print Rule_eq, Print Blank,
        Print (Test_header 1 3 (py ''Once upon a time'')), Print Rule_dash,
        Print Python_label, Call_home, Call_exists (checkpoint_path stub_home),
        Print (Checkpoint_not_found (checkpoint_path stub_home)),
        Print Output_failed, Print Blank, Print Ruby_label,
        Call_run (ruby_argv env_interrupted (py ''Once upon a time'') 50 (PyFloat (py ''0.8'')))
          True True 60]))"
    by (simp add: compare_outputs_def test_prompts_def compare_prompt_def python_step_def
        ruby_step_def generate_python_def generate_ruby_def show_output_def
        env_interrupted_def stub_env_def bind_def catch_def raise_def call_def print_def ret_def)
  show ?thesis
    using exit_status_of_the_run[of env_all_fail "()"] exit_status_of_the_run[of env_interrupted "()"]
      py rb
    by (simp add: ki)
qed

text \<open>
  C8, at a failing input: the first prompt goes through (Python answers, Ruby exits with
  status 1), and \<open>engine.generate\<close> raises an \<open>Exception\<close> on the second prompt. The
  exception is not caught in the loop: Ruby is not called for the second prompt, the third
  prompt is never attempted, and the process exits with status 1. Up to that point the
  events are in the order the claim gives: prompts in list order, Python before Ruby.
\<close>

theorem generate_failure_skips_remaining_prompts:
  "exit_code env_generate_fails_on_second () = 1
   \<and> events env_generate_fails_on_second () =
       [Print Banner, Print Rule_eq, Print Blank,
        Print (Test_header 1 3 (py ''Once upon a time'')), Print Rule_dash,
        Print Python_label, Call_home, Call_exists (checkpoint_path stub_home),
        Call_get_tokenizer, Call_from_checkpoint (checkpoint_path stub_home), Call_get_device,
        Call_Engine (GPT 0) (Tokenizer 0) (Device 0),
        Call_generate (Engine_object 0) (py ''Once upon a time'') 50 (PyFloat (py ''0.8''))
          (PyFloat (py ''0.95'')),
        Print (Output_text (py ''Once upon a time there lived'')), Print Blank,
        Print Ruby_label,
        Call_run (ruby_argv env_generate_fails_on_second (py ''Once upon a time'') 50
                    (PyFloat (py ''0.8''))) True True 60,
        Print (Ruby_error (py ''cannot load such file -- nanochat'')),
        Print Output_failed, Print Blank, Print Blank, Print Rule_eq, Print Blank,
        Print (Test_header 2 3 (py ''The meaning of life is'')), Print Rule_dash,
        Print Python_label, Call_home, Call_exists (checkpoint_path stub_home),
        Call_get_tokenizer, Call_from_checkpoint (checkpoint_path stub_home), Call_get_device,
        Call_Engine (GPT 0) (Tokenizer 0) (Device 0),
        Call_generate (Engine_object 0) (py ''The meaning of life is'') 50 (PyFloat (py ''0.8''))
          (PyFloat (py ''0.95'')),
        Print (Error_line (OtherException (py ''CUDA out of memory''))),
        Traceback (OtherException (py ''CUDA out of memory''))]"
proof -
  let ?env = env_generate_fails_on_second
  let ?p1 = "py ''Once upon a time''" and ?p2 = "py ''The meaning of life is''"
  have g1: "?p1 \<noteq> ?p2" by (simp add: py_def)
  have lived: "?p1 @ py '' there lived'' = py ''Once upon a time there lived''"
    by (simp add: py_def)
  have run: "subprocess_run ?env (ruby_argv ?env ?p1 50 (PyFloat (py ''0.8''))) True True 60 ()
      = (Inr (CompletedProcess 1 [] (py ''cannot load such file -- nanochat'')), ())"
    by (simp add: env_generate_fails_on_second_def stub_env_def)
  have gr: "generate_ruby ?env ?p1 50 (PyFloat (py ''0.8'')) ((), tr) =
      (Inr None, ((), tr @ [Call_run (ruby_argv ?env ?p1 50 (PyFloat (py ''0.8''))) True True 60,
                           Print (Ruby_error (py ''cannot load such file -- nanochat''))]))" for tr
    by (simp add: generate_ruby_outcome[OF run])
  have ps1: "python_step ?env ?p1 ((), tr) =
      (Inr (Some (py ''Once upon a time there lived'')),
       ((), tr @ [Print Python_label, Call_home,
                    Call_exists (checkpoint_path stub_home), Call_get_tokenizer,
                    Call_from_checkpoint (checkpoint_path stub_home), Call_get_device,
                    Call_Engine (GPT 0) (Tokenizer 0) (Device 0),
                    Call_generate (Engine_object 0) ?p1 50 (PyFloat (py ''0.8''))
                      (PyFloat (py ''0.95'')),
                    Print (Output_text (py ''Once upon a time there lived'')),
                    Print Blank]))" for tr
    unfolding env_generate_fails_on_second_def python_step_stub_ok
    using g1 by (simp add: lived) (simp add: py_def)
  have ps2: "python_step ?env ?p2 ((), tr) =
      (Inl (OtherException (py ''CUDA out of memory'')),
       ((), tr @ [Print Python_label, Call_home,
                    Call_exists (checkpoint_path stub_home), Call_get_tokenizer,
                    Call_from_checkpoint (checkpoint_path stub_home), Call_get_device,
                    Call_Engine (GPT 0) (Tokenizer 0) (Device 0),
                    Call_generate (Engine_object 0) ?p2 50 (PyFloat (py ''0.8''))
                      (PyFloat (py ''0.95''))]))" for tr
    unfolding env_generate_fails_on_second_def python_step_stub_ok
    by simp
  have rs1: "ruby_step ?env ?p1 ((), tr) =
      (Inr None, ((), tr @ [Print Ruby_label,
                            Call_run (ruby_argv ?env ?p1 50 (PyFloat (py ''0.8''))) True True 60,
                            Print (Ruby_error (py ''cannot load such file -- nanochat'')),
                            Print Output_failed, Print Blank]))" for tr
    by (simp add: ruby_step_def bind_print
        bind_eq_ok[where m="generate_ruby ?env ?p1 50 (PyFloat (py ''0.8''))", OF gr]
        show_output_def bind_ret ret_apply)
  have cp1: "compare_prompt ?env n i ?p1 ((), tr) =
      (Inr (), ((), tr @ [Print (Test_header i n ?p1), Print Rule_dash,
        Print Python_label, Call_home, Call_exists (checkpoint_path stub_home),
        Call_get_tokenizer, Call_from_checkpoint (checkpoint_path stub_home), Call_get_device,
        Call_Engine (GPT 0) (Tokenizer 0) (Device 0),
        Call_generate (Engine_object 0) ?p1 50 (PyFloat (py ''0.8'')) (PyFloat (py ''0.95'')),
        Print (Output_text (py ''Once upon a time there lived'')), Print Blank,
        Print Ruby_label,
        Call_run (ruby_argv ?env ?p1 50 (PyFloat (py ''0.8''))) True True 60,
        Print (Ruby_error (py ''cannot load such file -- nanochat'')),
        Print Output_failed, Print Blank, Print Blank, Print Rule_eq, Print Blank]))" for n i tr
    by (simp add: compare_prompt_unfold
        bind_eq_ok[where m="python_step ?env ?p1", OF ps1]
        bind_eq_ok[where m="ruby_step ?env ?p1", OF rs1]
        bind_eq_ok[where m="analysis ?p1 (Some (py ''Once upon a time there lived'')) None",
                   OF analysis_no_ruby]
        bind_print print_apply)
  have cp2: "compare_prompt ?env n i ?p2 ((), tr) =
      (Inl (OtherException (py ''CUDA out of memory'')),
       ((), tr @ [Print (Test_header i n ?p2), Print Rule_dash,
        Print Python_label, Call_home, Call_exists (checkpoint_path stub_home),
        Call_get_tokenizer, Call_from_checkpoint (checkpoint_path stub_home), Call_get_device,
        Call_Engine (GPT 0) (Tokenizer 0) (Device 0),
        Call_generate (Engine_object 0) ?p2 50 (PyFloat (py ''0.8'')) (PyFloat (py ''0.95''))]))"
    for n i tr
    by (simp add: compare_prompt_unfold bind_eq_raise[where m="python_step ?env ?p2", OF ps2])
  have co: "compare_outputs ?env ((), []) =
      (Inl (OtherException (py ''CUDA out of memory'')),
       ((), [Print Banner, Print Rule_eq, Print Blank,
        Print (Test_header 1 3 ?p1), Print Rule_dash,
        Print Python_label, Call_home, Call_exists (checkpoint_path stub_home),
        Call_get_tokenizer, Call_from_checkpoint (checkpoint_path stub_home), Call_get_device,
        Call_Engine (GPT 0) (Tokenizer 0) (Device 0),
        Call_generate (Engine_object 0) ?p1 50 (PyFloat (py ''0.8'')) (PyFloat (py ''0.95'')),
        Print (Output_text (py ''Once upon a time there lived'')), Print Blank,
        Print Ruby_label,
        Call_run (ruby_argv ?env ?p1 50 (PyFloat (py ''0.8''))) True True 60,
        Print (Ruby_error (py ''cannot load such file -- nanochat'')),
        Print Output_failed, Print Blank, Print Blank, Print Rule_eq, Print Blank,
        Print (Test_header 2 3 ?p2), Print Rule_dash,
        Print Python_label, Call_home, Call_exists (checkpoint_path stub_home),
        Call_get_tokenizer, Call_from_checkpoint (checkpoint_path stub_home), Call_get_device,
        Call_Engine (GPT 0) (Tokenizer 0) (Device 0),
        Call_generate (Engine_object 0) ?p2 50 (PyFloat (py ''0.8'')) (PyFloat (py ''0.95''))]))"
    by (simp add: compare_outputs_def test_prompts_def bind_def print_apply cp1 cp2
        numeral_2_eq_2 numeral_3_eq_3)
  show ?thesis
    by (simp add: exit_code_def events_def main_def co)
qed

text \<open>
  C7. In one iteration of the loop, every call of \<open>engine.generate\<close> has the prompt of
  the iteration, \<open>max_tokens=50\<close>, \<open>temperature=0.8\<close> and \<open>top_p=0.95\<close>, and every call of
  \<open>subprocess.run\<close> runs \<open>ruby -e\<close> on the script written out below, whose call of
  \<open>engine.generate\<close> has \<open>repr\<close> of the same prompt as its first argument and then
  \<open>max_tokens: 50\<close>, \<open>temperature: 0.8\<close>, \<open>top_p: 0.95\<close>. For the three prompts of the list,
  \<open>repr\<close> is the prompt between single quotes.
\<close>

theorem both_sides_get_the_same_request:
  "list_all
     (\<lambda>ev. case ev of
        Call_generate e p max_tokens temperature top_p \<Rightarrow>
          p = prompt \<and> max_tokens = 50 \<and> temperature = PyFloat (py ''0.8'')
          \<and> top_p = PyFloat (py ''0.95'')
      | Call_run argv capture_output txt timeout \<Rightarrow>
          argv =
            [py ''ruby'', py ''-e'',
             0x0A # concat (map (\<lambda>l. l @ [0x0A])
               [ py ''require 'bundler/setup'' @ [0x27],
                 py ''require 'nanochat'' @ [0x27],
                 [],
                 py ''checkpoint_path = File.expand_path('~/.cache/nanochat/model.pt')'',
                 py ''tokenizer_dir = File.expand_path('~/.cache/nanochat/tokenizer')'',
                 [],
                 py ''config = Nanochat::Config.new('',
                 py ''  vocab_size: 50_257,'',
                 py ''  n_embd: 768,'',
                 py ''  n_layer: 20,'',
                 py ''  n_head: 12,'',
                 py ''  n_kv_head: 4,'',
                 py ''  block_size: 1024'',
                 py '')'',
                 [],
                 py ''model = Nanochat::GPT.from_checkpoint(checkpoint_path, config)'',
                 py ''tokenizer = Nanochat::Tokenizer.from_directory(tokenizer_dir)'',
                 py ''engine = Nanochat::Engine.new(model, tokenizer)'',
                 [],
                 py ''response = engine.generate('',
                 py ''  '' @ repr (unicode_printable env) prompt @ py '','',
                 py ''  max_tokens: 50,'',
                 py ''  temperature: 0.8,'',
                 py ''  top_p: 0.95'',
                 py '')'',
                 [],
                 py ''puts response'' ])]
      | _ \<Rightarrow> True)
     (emitted (compare_prompt env n i prompt) w)
   \<and> list_all (\<lambda>p. repr printable p = 0x27 # p @ [0x27]) test_prompts"
proof
  let ?ok = "(\<lambda>ev. case ev of
        Call_generate e p max_tokens temperature top_p \<Rightarrow>
          p = prompt \<and> max_tokens = 50 \<and> temperature = PyFloat (py ''0.8'')
          \<and> top_p = PyFloat (py ''0.95'')
      | Call_run argv capture_output txt timeout \<Rightarrow>
          argv =
            [py ''ruby'', py ''-e'',
             0x0A # concat (map (\<lambda>l. l @ [0x0A])
               [ py ''require 'bundler/setup'' @ [0x27],
                 py ''require 'nanochat'' @ [0x27],
                 [],
                 py ''checkpoint_path = File.expand_path('~/.cache/nanochat/model.pt')'',
                 py ''tokenizer_dir = File.expand_path('~/.cache/nanochat/tokenizer')'',
                 [],
                 py ''config = Nanochat::Config.new('',
                 py ''  vocab_size: 50_257,'',
                 py ''  n_embd: 768,'',
                 py ''  n_layer: 20,'',
                 py ''  n_head: 12,'',
                 py ''  n_kv_head: 4,'',
                 py ''  block_size: 1024'',
                 py '')'',
                 [],
                 py ''model = Nanochat::GPT.from_checkpoint(checkpoint_path, config)'',
                 py ''tokenizer = Nanochat::Tokenizer.from_directory(tokenizer_dir)'',
                 py ''engine = Nanochat::Engine.new(model, tokenizer)'',
                 [],
                 py ''response = engine.generate('',
                 py ''  '' @ repr (unicode_printable env) prompt @ py '','',
                 py ''  max_tokens: 50,'',
                 py ''  temperature: 0.8,'',
                 py ''  top_p: 0.95'',
                 py '')'',
                 [],
                 py ''puts response'' ])]
      | _ \<Rightarrow> True)"
  have "keeps ?ok (compare_prompt env n i prompt)"
    by (rule keeps_compare_prompt) (simp_all add: ruby_argv_text)
  moreover have "list_all ?ok (snd (w, []))" by simp
  ultimately show "list_all ?ok (emitted (compare_prompt env n i prompt) w)"
    unfolding keeps_def emitted_def by blast
  show "list_all (\<lambda>p. repr printable p = 0x27 # p @ [0x27]) test_prompts"
    by (rule repr_test_prompts)
qed

theorem both_sides_get_the_same_request_witness:
  "list_all
     (\<lambda>ev. case ev of
        Call_generate e p max_tokens temperature top_p \<Rightarrow>
          p = (py ''Once upon a time'') \<and> max_tokens = 50 \<and> temperature = PyFloat (py ''0.8'')
          \<and> top_p = PyFloat (py ''0.95'')
      | Call_run argv capture_output txt timeout \<Rightarrow>
          argv =
            [py ''ruby'', py ''-e'',
             0x0A # concat (map (\<lambda>l. l @ [0x0A])
               [ py ''require 'bundler/setup'' @ [0x27],
                 py ''require 'nanochat'' @ [0x27],
                 [],
                 py ''checkpoint_path = File.expand_path('~/.cache/nanochat/model.pt')'',
                 py ''tokenizer_dir = File.expand_path('~/.cache/nanochat/tokenizer')'',
                 [],
                 py ''config = Nanochat::Config.new('',
                 py ''  vocab_size: 50_257,'',
                 py ''  n_embd: 768,'',
                 py ''  n_layer: 20,'',
                 py ''  n_head: 12,'',
                 py ''  n_kv_head: 4,'',
                 py ''  block_size: 1024'',
                 py '')'',
                 [],
                 py ''model = Nanochat::GPT.from_checkpoint(checkpoint_path, config)'',
                 py ''tokenizer = Nanochat::Tokenizer.from_directory(tokenizer_dir)'',
                 py ''engine = Nanochat::Engine.new(model, tokenizer)'',
                 [],
                 py ''response = engine.generate('',
                 py ''  '' @ repr (unicode_printable env_both_answer) (py ''Once upon a time'') @ py '','',
                 py ''  max_tokens: 50,'',
                 py ''  temperature: 0.8,'',
                 py ''  top_p: 0.95'',
                 py '')'',
                 [],
                 py ''puts response'' ])]
      | _ \<Rightarrow> True)
     (emitted (compare_prompt env_both_answer 3 1 (py ''Once upon a time'')) ())
   \<and> list_all (\<lambda>p. repr (\<lambda>_. False) p = 0x27 # p @ [0x27]) test_prompts
   \<and> emitted (compare_prompt env_both_answer 3 1 (py ''Once upon a time'')) () =
       [Print (Test_header 1 3 (py ''Once upon a time'')), Print Rule_dash,
        Print Python_label, Call_home, Call_exists (checkpoint_path stub_home),
        Call_get_tokenizer, Call_from_checkpoint (checkpoint_path stub_home), Call_get_device,
        Call_Engine (GPT 0) (Tokenizer 0) (Device 0),
        Call_generate (Engine_object 0) (py ''Once upon a time'') 50 (PyFloat (py ''0.8''))
          (PyFloat (py ''0.95'')),
        Print (Output_text (py ''Once upon a time there lived'')), Print Blank,
        Print Ruby_label,
        Call_run
          [py ''ruby'', py ''-e'',
           0x0A # concat (map (\<lambda>l. l @ [0x0A])
             [ py ''require 'bundler/setup'' @ [0x27],
               py ''require 'nanochat'' @ [0x27],
               [],
               py ''checkpoint_path = File.expand_path('~/.cache/nanochat/model.pt')'',
               py ''tokenizer_dir = File.expand_path('~/.cache/nanochat/tokenizer')'',
               [],
               py ''config = Nanochat::Config.new('',
               py ''  vocab_size: 50_257,'',
               py ''  n_embd: 768,'',
               py ''  n_layer: 20,'',
               py ''  n_head: 12,'',
               py ''  n_kv_head: 4,'',
               py ''  block_size: 1024'',
               py '')'',
               [],
               py ''model = Nanochat::GPT.from_checkpoint(checkpoint_path, config)'',
               py ''tokenizer = Nanochat::Tokenizer.from_directory(tokenizer_dir)'',
               py ''engine = Nanochat::Engine.new(model, tokenizer)'',
               [],
               py ''response = engine.generate('',
               py ''  '' @ (0x27 # py ''Once upon a time'' @ [0x27]) @ py '','',
               py ''  max_tokens: 50,'',
               py ''  temperature: 0.8,'',
               py ''  top_p: 0.95'',
               py '')'',
               [],
               py ''puts response'' ])]
          True True 60,
        Print (Output_text (py ''Once upon a time there was'')), Print Blank,
        Print (Shared_prefix 23), Print (Python_length 28), Print (Ruby_length 26),
        Print Blank, Print Rule_eq, Print Blank]"
proof -
  let ?env = env_both_answer
  let ?p1 = "py ''Once upon a time''"
  note inst = both_sides_get_the_same_request[where env="?env" and prompt="?p1" and n=3
      and i=1 and w="()" and printable="\<lambda>_. False"]
  have lived: "?p1 @ py '' there lived'' = py ''Once upon a time there lived''"
    by (simp add: py_def)
  have quoted: "repr (unicode_printable ?env) ?p1 = 0x27 # ?p1 @ [0x27]"
    using repr_test_prompts[of "unicode_printable ?env"] by (simp add: test_prompts_def)
  have run: "subprocess_run ?env (ruby_argv ?env ?p1 50 (PyFloat (py ''0.8''))) True True 60 ()
      = (Inr (CompletedProcess 0 (py ''Once upon a time there was'' @ [0x0A]) []), ())"
    by (simp add: env_both_answer_def stub_env_def)
  have st: "strip (py ''Once upon a time there was'' @ [0x0A]) = py ''Once upon a time there was''"
    by (simp add: strip_def py_def isspace_def)
  have gr: "generate_ruby ?env ?p1 50 (PyFloat (py ''0.8'')) ((), tr) =
      (Inr (Some (py ''Once upon a time there was'')),
       ((), tr @ [Call_run (ruby_argv ?env ?p1 50 (PyFloat (py ''0.8''))) True True 60]))" for tr
    by (simp add: generate_ruby_outcome[OF run] st)
  have ps: "python_step ?env ?p1 ((), tr) =
      (Inr (Some (py ''Once upon a time there lived'')),
       ((), tr @ [Print Python_label, Call_home,
                    Call_exists (checkpoint_path stub_home), Call_get_tokenizer,
                    Call_from_checkpoint (checkpoint_path stub_home), Call_get_device,
                    Call_Engine (GPT 0) (Tokenizer 0) (Device 0),
                    Call_generate (Engine_object 0) ?p1 50 (PyFloat (py ''0.8''))
                      (PyFloat (py ''0.95'')),
                    Print (Output_text (py ''Once upon a time there lived'')),
                    Print Blank]))" for tr
    unfolding env_both_answer_def python_step_stub_ok
    by (simp add: lived) (simp add: py_def)
  have nonempty: "py ''Once upon a time there was'' \<noteq> []" "py ''Once upon a time there lived'' \<noteq> []"
    by (simp_all add: py_def)
  have rs: "ruby_step ?env ?p1 ((), tr) =
      (Inr (Some (py ''Once upon a time there was'')),
       ((), tr @ [Print Ruby_label,
                  Call_run (ruby_argv ?env ?p1 50 (PyFloat (py ''0.8''))) True True 60,
                  Print (Output_text (py ''Once upon a time there was'')), Print Blank]))" for tr
    using nonempty
    by (simp add: ruby_step_def bind_print
        bind_eq_ok[where m="generate_ruby ?env ?p1 50 (PyFloat (py ''0.8''))", OF gr]
        show_output_def bind_ret ret_apply)
  have cpl: "common_prefix_length (py ''Once upon a time there lived'')
               (py ''Once upon a time there was'') = 23"
    by (simp add: common_prefix_length_eq py_def)
  have lens: "length ?p1 = 16" "length (py ''Once upon a time there lived'') = 28"
    "length (py ''Once upon a time there was'') = 26"
    by (simp_all add: py_def)
  have an: "analysis ?p1 (Some (py ''Once upon a time there lived''))
              (Some (py ''Once upon a time there was'')) ((), tr) =
      (Inr (), ((), tr @ [Print (Shared_prefix 23), Print (Python_length 28),
                          Print (Ruby_length 26)]))" for tr
    using nonempty by (simp add: analysis_emitted cpl lens)
  have tr: "emitted (compare_prompt ?env 3 1 ?p1) () =
       [Print (Test_header 1 3 ?p1), Print Rule_dash,
        Print Python_label, Call_home, Call_exists (checkpoint_path stub_home),
        Call_get_tokenizer, Call_from_checkpoint (checkpoint_path stub_home), Call_get_device,
        Call_Engine (GPT 0) (Tokenizer 0) (Device 0),
        Call_generate (Engine_object 0) ?p1 50 (PyFloat (py ''0.8'')) (PyFloat (py ''0.95'')),
        Print (Output_text (py ''Once upon a time there lived'')), Print Blank,
        Print Ruby_label,
        Call_run (ruby_argv ?env ?p1 50 (PyFloat (py ''0.8''))) True True 60,
        Print (Output_text (py ''Once upon a time there was'')), Print Blank,
        Print (Shared_prefix 23), Print (Python_length 28), Print (Ruby_length 26),
        Print Blank, Print Rule_eq, Print Blank]"
    unfolding emitted_def compare_prompt_unfold
    by (simp add: bind_eq_ok[where m="python_step ?env ?p1", OF ps]
        bind_eq_ok[where m="ruby_step ?env ?p1", OF rs]
        bind_eq_ok[where m="analysis ?p1 (Some (py ''Once upon a time there lived''))
              (Some (py ''Once upon a time there was''))", OF an]
        bind_print print_apply)
  show ?thesis
    by (intro conjI)
       (rule inst[THEN conjunct1], rule inst[THEN conjunct2],
        simp only: tr ruby_argv_text quoted)
qed

end
